theory Spec2Isabelle
  imports Complex_Main "HOL-Library.Multiset" "HOL-Library.AList" "HOL-Library.Log_Nat"
begin

section \<open>Numbers, dates and truth values of the Python source\<close>

text \<open>
  Python \<open>int\<close> is \<^typ>\<open>int\<close>. Python \<open>float\<close> is modelled by \<^typ>\<open>real\<close>: every
  arithmetic operation is exact, so the rounding error of IEEE doubles is not part of the
  model (in binary64 \<open>60 * 0.12\<close> is \<open>7.199999999999999\<close>, here it is \<open>7.2\<close>).
  The one non-finite value that the analysed code can produce, the \<open>nan\<close> of a
  correlation with a constant sample, is modelled explicitly further down.
\<close>

definition round_half_even :: "real \<Rightarrow> int" where
  "round_half_even x =
     (let f = \<lfloor>x\<rfloor>; d = x - real_of_int f
      in if d < 1 / 2 then f
         else if 1 / 2 < d then f + 1
         else if even f then f else f + 1)"

definition py_round :: "real \<Rightarrow> nat \<Rightarrow> real" where
  \<comment> \<open>\<open>round(x, n)\<close> on a float: to \<open>n\<close> decimals, ties to the even neighbour.\<close>
  "py_round x n = real_of_int (round_half_even (x * 10 ^ n)) / 10 ^ n"

definition py_int :: "real \<Rightarrow> int" where
  \<comment> \<open>\<open>int(x)\<close> on a float truncates towards zero.\<close>
  "py_int x = (if 0 \<le> x then \<lfloor>x\<rfloor> else \<lceil>x\<rceil>)"

definition truthy :: "real option \<Rightarrow> bool" where
  \<comment> \<open>Truth value of an optional float column: \<open>None\<close> and \<open>0.0\<close> are false.\<close>
  "truthy v = (case v of None \<Rightarrow> False | Some x \<Rightarrow> x \<noteq> 0)"

text \<open>
  An exception that a modelled function can raise is a value of \<open>py_error\<close>; a function
  that can raise returns a sum, \<open>Inl\<close> the exception.
\<close>

datatype py_error = NotFound | KeyError | IntegrityError | ValueError

definition bind_result :: "py_error + 'a \<Rightarrow> ('a \<Rightarrow> py_error + 'b) \<Rightarrow> py_error + 'b" where
  "bind_result r f = (case r of Inl err \<Rightarrow> Inl err | Inr v \<Rightarrow> f v)"

text \<open>
  A \<open>datetime.date\<close> is its three fields. The standard library orders dates and subtracts
  them through the proleptic Gregorian ordinal, which is computed as \<open>datetime._ymd2ord\<close>
  does.
\<close>

record date =
  year :: int
  month :: int
  day :: int

definition is_leap :: "int \<Rightarrow> bool" where
  "is_leap y = (y mod 4 = 0 \<and> (y mod 100 \<noteq> 0 \<or> y mod 400 = 0))"

definition days_before_year :: "int \<Rightarrow> int" where
  "days_before_year y' = (let y = y' - 1 in y * 365 + y div 4 - y div 100 + y div 400)"

definition DAYS_BEFORE_MONTH :: "int list" where
  "DAYS_BEFORE_MONTH = [0, 31, 59, 90, 120, 151, 181, 212, 243, 273, 304, 334]"

definition days_before_month :: "int \<Rightarrow> int \<Rightarrow> int" where
  "days_before_month y m =
     DAYS_BEFORE_MONTH ! nat (m - 1) + (if 2 < m \<and> is_leap y then 1 else 0)"

definition toordinal :: "date \<Rightarrow> int" where
  "toordinal d = days_before_year (year d) + days_before_month (year d) (month d) + day d"

definition days_between :: "date \<Rightarrow> date \<Rightarrow> int" where
  \<comment> \<open>\<open>(a - b).days\<close>\<close>
  "days_between a b = toordinal a - toordinal b"

definition date_less :: "date \<Rightarrow> date \<Rightarrow> bool" where
  "date_less a b = (toordinal a < toordinal b)"

section \<open>The tables of \<open>app/main.py\<close>\<close>

record Player =
  player_ident :: int
  name :: string
  team :: string
  position :: string

record PlayerStats =
  player_id :: int
  game_date :: date
  rushing_yards :: int
  rushing_tds :: int
  receptions :: int
  receiving_yards :: int
  receiving_tds :: int
  targets :: int
  fantasy_points :: real

record LifeEvent =
  le_player_id :: int
  event_type :: string
  event_category :: string
  event_description :: string
  event_date :: date

record TeamDefenseStats =
  team_abbr :: string
  season :: int
  week :: int
  pass_yards_allowed_per_game :: real
  rush_yards_allowed_per_game :: real
  passing_tds_allowed :: int
  rushing_tds_allowed :: int
  sacks :: int
  rec_yards_allowed_to_rbs :: real
  rec_yards_allowed_to_wrs :: real
  rec_yards_allowed_to_tes :: real
  pass_defense_rank :: int
  rush_defense_rank :: int

record UpcomingGame =
  ug_player_id :: int
  ug_game_date :: date
  opponent :: string
  home_away :: string
  ug_week :: int
  ug_season :: int
  prop_receiving_yards :: "real option"
  prop_receptions :: "real option"
  prop_rush_yards :: "real option"

record PlayerVsTeamHistory =
  vh_player_id :: int
  opponent_team :: string
  vh_game_date :: date
  vh_receiving_yards :: int
  vh_rushing_yards :: int

text \<open>
  A float that may be \<open>nan\<close>: the results of \<open>np.corrcoef\<close> and \<open>stats.ttest_ind\<close>.
\<close>

datatype pyfloat = NaN | Num real

text \<open>
  The \<open>correlation_analysis\<close> table of \<open>analytics_service.py\<close>; the result dictionary of
  \<open>calculate_correlation\<close> has the same fields.
\<close>

record CorrelationAnalysis =
  ca_player_id :: int
  ca_event_type :: string
  correlation_coefficient :: pyfloat
  sample_size :: int
  p_value :: pyfloat
  mean_before :: real
  mean_after :: real
  is_significant :: int

text \<open>
  The database session is a record of the tables, each a list of rows in the order in
  which an unordered query returns them.
\<close>

record database =
  player_table :: "Player list"
  player_stats_table :: "PlayerStats list"
  life_event_table :: "LifeEvent list"
  team_defense_table :: "TeamDefenseStats list"
  vs_team_history_table :: "PlayerVsTeamHistory list"
  correlation_analysis_table :: "CorrelationAnalysis list"

section \<open>The matchup projection: \<open>calculate_matchup_prediction\<close>\<close>

text \<open>
  A factor is one of the six messages that the function appends to \<open>factors\<close>; the
  datatype keeps the values that the f-string interpolates.
\<close>

datatype factor =
    EventFactor bool string int
  | ToughMatchup int string
  | FavorableMatchup int string
  | StrongHistory string nat
  | Struggles string nat
  | CrossSeason

record prediction =
  base_projection :: real
  event_adjustment :: real
  opponent_adjustment :: real
  final_projection :: real
  confidence :: int
  recommendation :: string
  factors :: "factor list"

definition initial_prediction :: prediction where
  "initial_prediction =
     \<lparr>base_projection = 0, event_adjustment = 0, opponent_adjustment = 0,
      final_projection = 0, confidence = 0, recommendation = ''HOLD'', factors = []\<rparr>"

definition pass_catcher :: "Player \<Rightarrow> bool" where
  \<comment> \<open>\<open>player.position in ['WR', 'TE']\<close>\<close>
  "pass_catcher p = (position p = ''WR'' \<or> position p = ''TE'')"



definition event_factor :: "UpcomingGame \<Rightarrow> LifeEvent \<Rightarrow> factor" where
  "event_factor g e =
     EventFactor (event_type e = ''positive'') (event_category e)
       (days_between (ug_game_date g) (event_date e))"

definition query_defense :: "database \<Rightarrow> UpcomingGame \<Rightarrow> TeamDefenseStats option" where
  \<comment> \<open>\<open>TeamDefenseStats.query.filter_by(team_abbr, season, week).first()\<close>\<close>
  "query_defense db g =
     (case filter (\<lambda>d. team_abbr d = opponent g \<and> season d = ug_season g \<and> week d = ug_week g)
             (team_defense_table db)
      of [] \<Rightarrow> None | d # _ \<Rightarrow> Some d)"

definition query_history :: "database \<Rightarrow> Player \<Rightarrow> UpcomingGame \<Rightarrow> PlayerVsTeamHistory list" where
  "query_history db p g =
     filter (\<lambda>h. vh_player_id h = player_ident p \<and> opponent_team h = opponent g)
       (vs_team_history_table db)"

definition query_stats :: "database \<Rightarrow> Player \<Rightarrow> PlayerStats list" where
  \<comment> \<open>\<open>PlayerStats.query.filter_by(player_id=player.id).all()\<close>\<close>
  "query_stats db p = filter (\<lambda>s. player_id s = player_ident p) (player_stats_table db)"

definition matchup_factor :: "int \<Rightarrow> string \<Rightarrow> factor list" where
  "matchup_factor rank kind =
     (if rank \<le> 10 then [ToughMatchup rank kind]
      else if 23 \<le> rank then [FavorableMatchup rank kind] else [])"

definition confidence_factors ::
  "LifeEvent list \<Rightarrow> TeamDefenseStats option \<Rightarrow> PlayerVsTeamHistory list \<Rightarrow> PlayerStats list \<Rightarrow> int" where
  "confidence_factors recent_events defense vs_team_history stats =
     (if recent_events \<noteq> [] then 25 else 0) + (if defense \<noteq> None then 35 else 0)
     + (if vs_team_history \<noteq> [] then 20 else 0) + (if 5 \<le> length stats then 20 else 0)"


section \<open>The correlation analysis: \<open>analytics_service.py\<close>\<close>

text \<open>
  \<open>date + timedelta(days=n)\<close> raises \<open>OverflowError\<close> when \<open>n\<close> is not a valid number of days
  or the result leaves the years 1 to 9999; otherwise its ordinal is the sum. The function
  under analysis catches every exception and returns \<open>None\<close>.
\<close>

definition date_shift :: "date \<Rightarrow> int \<Rightarrow> int option" where
  "date_shift d n =
     (let ord = toordinal d + n
      in if \<bar>n\<bar> \<le> 999999999 \<and> 1 \<le> ord \<and> ord \<le> 3652059 then Some ord else None)"

definition fmean :: "real list \<Rightarrow> real" where
  \<comment> \<open>\<open>sum(xs) / len(xs)\<close> and \<open>np.mean(xs)\<close>, on a non-empty list\<close>
  "fmean xs = sum_list xs / real (length xs)"

text \<open>
  \<open>np.corrcoef(x, y)[0, 1]\<close> for two samples of one length: the sample covariance divided
  by the two standard deviations, one after the other. A constant sample has standard
  deviation 0 and the division \<open>0 / 0\<close> yields \<open>nan\<close> (with a warning, not an exception).
\<close>

definition covariance :: "real list \<Rightarrow> real list \<Rightarrow> real" where
  "covariance xs ys =
     (\<Sum>(x, y)\<leftarrow>zip xs ys. (x - fmean xs) * (y - fmean ys)) / (real (length xs) - 1)"

definition corrcoef :: "real list \<Rightarrow> real list \<Rightarrow> pyfloat" where
  "corrcoef xs ys =
     (let c = covariance xs ys; vx = covariance xs xs; vy = covariance ys ys
      in if vx = 0 \<or> vy = 0 then NaN else Num (c / sqrt vx / sqrt vy))"

definition pyfloat_less :: "pyfloat \<Rightarrow> real \<Rightarrow> bool" where
  \<comment> \<open>\<open>p < x\<close>; every comparison with \<open>nan\<close> is false\<close>
  "pyfloat_less p x = (case p of NaN \<Rightarrow> False | Num v \<Rightarrow> v < x)"

definition query_events :: "database \<Rightarrow> int \<Rightarrow> string \<Rightarrow> LifeEvent list" where
  "query_events db pid et =
     filter (\<lambda>e. le_player_id e = pid \<and> event_type e = et) (life_event_table db)"

text \<open>
  The loop over the events. \<open>None\<close> is an exception raised by the date arithmetic; the
  accumulators are \<open>before_scores\<close> and \<open>after_scores\<close>.
\<close>

fun score_loop ::
  "database \<Rightarrow> int \<Rightarrow> int \<Rightarrow> int \<Rightarrow> LifeEvent list \<Rightarrow> real list \<times> real list
     \<Rightarrow> (real list \<times> real list) option" where
  "score_loop db pid days_before days_after [] acc = Some acc"
| "score_loop db pid days_before days_after (event # events) (before_scores, after_scores) =
     (case date_shift (event_date event) (- days_before) of
        None \<Rightarrow> None
      | Some before_start \<Rightarrow>
          (case date_shift (event_date event) days_after of
             None \<Rightarrow> None
           | Some after_end \<Rightarrow>
               let before_stats =
                     filter (\<lambda>s. player_id s = pid \<and> before_start \<le> toordinal (game_date s)
                                \<and> toordinal (game_date s) < toordinal (event_date event))
                       (player_stats_table db);
                   after_stats =
                     filter (\<lambda>s. player_id s = pid
                                \<and> toordinal (event_date event) < toordinal (game_date s)
                                \<and> toordinal (game_date s) \<le> after_end)
                       (player_stats_table db);
                   before_scores' =
                     (if before_stats \<noteq> []
                      then before_scores @ [fmean (map fantasy_points before_stats)]
                      else before_scores);
                   after_scores' =
                     (if after_stats \<noteq> []
                      then after_scores @ [fmean (map fantasy_points after_stats)]
                      else after_scores)
               in score_loop db pid days_before days_after events
                    (before_scores', after_scores')))"

text \<open>
  \<open>stats.ttest_ind\<close> is a parameter: a function from the two samples to the statistic and
  the p-value.
\<close>

definition calculate_correlation ::
  "(real list \<Rightarrow> real list \<Rightarrow> pyfloat \<times> pyfloat) \<Rightarrow> database \<Rightarrow> int \<Rightarrow> string \<Rightarrow> int \<Rightarrow> int
     \<Rightarrow> CorrelationAnalysis option" where
  "calculate_correlation ttest_ind db pid et days_before days_after =
     (let events = query_events db pid et
      in if events = [] then None
         else
           (case score_loop db pid days_before days_after events ([], []) of
              None \<Rightarrow> None
            | Some (before_scores, after_scores) \<Rightarrow>
                if length before_scores < 3 \<or> length after_scores < 3 then None
                else
                  let (t_stat, p_val) = ttest_ind before_scores after_scores;
                      correlation =
                        (if length before_scores = length after_scores
                         then corrcoef before_scores after_scores else Num 0);
                      significant = (if pyfloat_less p_val 0.05 then 1 else 0)
                  in Some \<lparr>ca_player_id = pid, ca_event_type = et,
                            correlation_coefficient = correlation,
                            sample_size = int (length before_scores + length after_scores),
                            p_value = p_val,
                            mean_before = fmean before_scores,
                            mean_after = fmean after_scores,
                            is_significant = significant\<rparr>))"

text \<open>\<open>run_analysis_cycle\<close>: one analysis per player with life events and per event type;
  a row is added for every analysis that returns a result.\<close>

definition event_types :: "string list" where
  "event_types = [''birth'', ''marriage'', ''injury'', ''family_issue'', ''contract'']"

definition players_with_events :: "database \<Rightarrow> int list" where
  "players_with_events db =
     remdups (map player_ident
       (filter (\<lambda>p. player_ident p \<in> set (map le_player_id (life_event_table db)))
          (player_table db)))"

definition analysis_rows ::
  "(real list \<Rightarrow> real list \<Rightarrow> pyfloat \<times> pyfloat) \<Rightarrow> database \<Rightarrow> CorrelationAnalysis list" where
  "analysis_rows ttest_ind db =
     concat (map (\<lambda>pid. List.map_filter (\<lambda>et. calculate_correlation ttest_ind db pid et 30 30)
                          event_types)
               (players_with_events db))"

definition run_analysis_cycle ::
  "(real list \<Rightarrow> real list \<Rightarrow> pyfloat \<times> pyfloat) \<Rightarrow> database \<Rightarrow> database" where
  "run_analysis_cycle ttest_ind db =
     db\<lparr>correlation_analysis_table := correlation_analysis_table db @ analysis_rows ttest_ind db\<rparr>"

section \<open>The event proximity profile: \<open>player_analytics\<close>\<close>

text \<open>
  The model covers the queries of \<open>player_analytics\<close>, the analysis of the performance
  around each life event and the betting insights derived from it. The season averages,
  the recent form and the proximity windows that the function computes before them divide
  by the number of games only, under \<open>if stats\<close> and \<open>if games_near_events\<close>, and raise
  nothing.
\<close>

text \<open>The keys of the dictionaries \<open>before_avg\<close>, \<open>after_avg\<close> and \<open>changes\<close>, in their order.\<close>

datatype stat_key = FantasyPoints | ReceivingYards | Receptions | ReceivingTds

definition stat_keys :: "stat_key list" where
  "stat_keys = [FantasyPoints, ReceivingYards, Receptions, ReceivingTds]"

definition stat_value :: "stat_key \<Rightarrow> PlayerStats \<Rightarrow> real" where
  "stat_value k s =
     (case k of
        FantasyPoints \<Rightarrow> fantasy_points s
      | ReceivingYards \<Rightarrow> real_of_int (receiving_yards s)
      | Receptions \<Rightarrow> real_of_int (receptions s)
      | ReceivingTds \<Rightarrow> real_of_int (receiving_tds s))"

definition key_average :: "stat_key \<Rightarrow> PlayerStats list \<Rightarrow> real" where
  \<comment> \<open>\<open>sum(s.key for s in xs) / len(xs)\<close>, on a non-empty list\<close>
  "key_average k xs = sum_list (map (stat_value k) xs) / real (length xs)"

record change_entry =
  ch_before :: real
  ch_after :: real
  change :: real
  change_pct :: real

record event_analysis_entry =
  event :: LifeEvent
  changes :: "(stat_key \<times> change_entry) list"
  improved :: bool
  ea_sample_size :: "nat \<times> nat"

record insights =
  total_events :: nat
  avg_fp_change :: real
  avg_yd_change :: real
  improved_pct :: real
  positive_events_count :: nat
  negative_events_count :: nat
  positive_avg_change :: real
  negative_avg_change :: real

definition query_stats_by_date :: "database \<Rightarrow> int \<Rightarrow> PlayerStats list" where
  \<comment> \<open>\<open>PlayerStats.query.filter_by(player_id).order_by(PlayerStats.game_date).all()\<close>\<close>
  "query_stats_by_date db pid =
     sort_key (\<lambda>s. toordinal (game_date s)) (filter (\<lambda>s. player_id s = pid) (player_stats_table db))"

definition query_events_by_date :: "database \<Rightarrow> int \<Rightarrow> LifeEvent list" where
  "query_events_by_date db pid =
     sort_key (\<lambda>e. toordinal (event_date e)) (filter (\<lambda>e. le_player_id e = pid) (life_event_table db))"

text \<open>
  One pass of the loop over the life events: the entry appended to \<open>event_analysis\<close>, or
  nothing when fewer than three games lie before or after the event. A key whose before
  average is not positive gets no entry in \<open>changes\<close>.
\<close>

definition change_for :: "PlayerStats list \<Rightarrow> PlayerStats list \<Rightarrow> stat_key
    \<Rightarrow> (stat_key \<times> change_entry) list" where
  "change_for recent_before recent_after k =
     (let before_avg = key_average k recent_before; after_avg = key_average k recent_after
      in if 0 < before_avg
         then [(k, \<lparr>ch_before = py_round before_avg 1, ch_after = py_round after_avg 1,
                    change = py_round (after_avg - before_avg) 1,
                    change_pct = py_round (((after_avg - before_avg) / before_avg) * 100) 1\<rparr>)]
         else [])"

definition analyze_event :: "PlayerStats list \<Rightarrow> LifeEvent \<Rightarrow> event_analysis_entry option" where
  "analyze_event stats ev =
     (let before_stats = filter (\<lambda>s. date_less (game_date s) (event_date ev)) stats;
          after_stats = filter (\<lambda>s. date_less (event_date ev) (game_date s)) stats
      in if 3 \<le> length before_stats \<and> 3 \<le> length after_stats
         then
           let recent_before = drop (length before_stats - 3) before_stats;
               recent_after = take 3 after_stats
           in Some \<lparr>event = ev,
                     changes = concat (map (change_for recent_before recent_after) stat_keys),
                     improved = (key_average FantasyPoints recent_before
                                   < key_average FantasyPoints recent_after),
                     ea_sample_size = (length recent_before, length recent_after)\<rparr>
         else None)"

definition has_key :: "stat_key \<Rightarrow> event_analysis_entry \<Rightarrow> bool" where
  \<comment> \<open>\<open>key in e['changes']\<close>\<close>
  "has_key k e = (map_of (changes e) k \<noteq> None)"

definition change_at :: "stat_key \<Rightarrow> event_analysis_entry \<Rightarrow> py_error + real" where
  \<comment> \<open>\<open>e['changes'][key]['change']\<close>\<close>
  "change_at k e = (case map_of (changes e) k of None \<Rightarrow> Inl KeyError | Some c \<Rightarrow> Inr (change c))"

fun sum_changes :: "stat_key \<Rightarrow> event_analysis_entry list \<Rightarrow> py_error + real" where
  "sum_changes k [] = Inr 0"
| "sum_changes k (e # es) =
     bind_result (change_at k e) (\<lambda>c. bind_result (sum_changes k es) (\<lambda>s. Inr (c + s)))"

definition bucket_average :: "event_analysis_entry list \<Rightarrow> py_error + real" where
  \<comment> \<open>\<open>round(sum(e['changes']['fantasy_points']['change'] for e in es) / len(es), 1) if es else 0\<close>\<close>
  "bucket_average es =
     (if es \<noteq> []
      then bind_result (sum_changes FantasyPoints es) (\<lambda>s. Inr (py_round (s / real (length es)) 1))
      else Inr 0)"

definition betting_insights :: "event_analysis_entry list \<Rightarrow> py_error + insights option" where
  "betting_insights event_analysis =
     (if event_analysis = [] then Inr None
      else
        bind_result (sum_changes FantasyPoints (filter (has_key FantasyPoints) event_analysis))
          (\<lambda>total_fp_change.
        bind_result (sum_changes ReceivingYards (filter (has_key ReceivingYards) event_analysis))
          (\<lambda>total_yd_change.
        let positive_events = filter (\<lambda>e. event_type (event e) = ''positive'') event_analysis;
            negative_events = filter (\<lambda>e. event_type (event e) = ''negative'') event_analysis;
            n = real (length event_analysis)
        in bind_result (bucket_average positive_events)
          (\<lambda>positive_avg.
        bind_result (bucket_average negative_events)
          (\<lambda>negative_avg.
        Inr (Some
          \<lparr>total_events = length event_analysis,
           avg_fp_change = py_round (total_fp_change / n) 1,
           avg_yd_change = py_round (total_yd_change / n) 1,
           improved_pct = py_round ((real (length (filter improved event_analysis)) / n) * 100) 0,
           positive_events_count = length positive_events,
           negative_events_count = length negative_events,
           positive_avg_change = positive_avg,
           negative_avg_change = negative_avg\<rparr>))))))"

definition player_analytics ::
  "database \<Rightarrow> int \<Rightarrow> py_error + (event_analysis_entry list \<times> insights option)" where
  "player_analytics db pid =
     (if filter (\<lambda>p. player_ident p = pid) (player_table db) = [] then Inl NotFound
      else
        let stats = query_stats_by_date db pid;
            life_events = query_events_by_date db pid
        in if stats = [] then Inr ([], None)
           else
             let event_analysis = List.map_filter (analyze_event stats) life_events
             in bind_result (betting_insights event_analysis)
                  (\<lambda>insights. Inr (event_analysis, insights)))"

section \<open>Binary64 arithmetic and the matchup projection on machine floats\<close>

text \<open>
  A Python \<open>float\<close> is an IEEE 754 binary64 number, and every float operation returns the
  exact result rounded to the nearest such number, ties to the even significand. A finite
  float is modelled by the real number it denotes, and \<open>b64\<close> is that rounding: the
  result has a 53-bit significand, with the fixed spacing \<open>2\<^sup>-\<^sup>1\<^sup>0\<^sup>7\<^sup>4\<close> in the subnormal
  range. Overflow to infinity and \<open>nan\<close> are not part of this model; the projection
  computes from integer columns and finite prop lines and stays far from both.
\<close>

definition pow2 :: "int \<Rightarrow> real" where
  "pow2 e = (if 0 \<le> e then 2 ^ nat e else 1 / 2 ^ nat (- e))"

definition ilog2 :: "real \<Rightarrow> int" where
  \<comment> \<open>for \<open>0 < x\<close>, the exponent \<open>e\<close> with \<open>2\<^sup>e \<le> x < 2\<^sup>e\<^sup>+\<^sup>1\<close>\<close>
  "ilog2 x = (if 1 \<le> x then bitlen \<lfloor>x\<rfloor> - 1 else - bitlen (\<lceil>1 / x\<rceil> - 1))"

definition b64 :: "real \<Rightarrow> real" where
  "b64 x =
     (if x = 0 then 0
      else let e = max (ilog2 \<bar>x\<bar> - 52) (- 1074)
           in real_of_int (round_half_even (x / pow2 e)) * pow2 e)"

definition float_of_int :: "int \<Rightarrow> real" where
  \<comment> \<open>the conversion of an \<open>int\<close> operand of a float operation\<close>
  "float_of_int k = b64 (real_of_int k)"

definition true_div :: "int \<Rightarrow> int \<Rightarrow> real" where
  \<comment> \<open>\<open>a / b\<close> on two \<open>int\<close>s, \<open>b\<close> not zero: the correctly rounded quotient\<close>
  "true_div a b = b64 (real_of_int a / real_of_int b)"

definition round_b64 :: "real \<Rightarrow> nat \<Rightarrow> real" where
  \<comment> \<open>\<open>round(x, n)\<close>: the value of the float to \<open>n\<close> decimals, ties to even, read back as a
     float\<close>
  "round_b64 x n = b64 (real_of_int (round_half_even (x * 10 ^ n)) / 10 ^ n)"

definition average_b64 :: "('a \<Rightarrow> int) \<Rightarrow> 'a list \<Rightarrow> real" where
  \<comment> \<open>\<open>sum(f(s) for s in xs) / len(xs)\<close>: an \<open>int\<close> sum divided by an \<open>int\<close> length\<close>
  "average_b64 f xs = true_div (sum_list (map f xs)) (int (length xs))"

text \<open>
  \<open>calculate_matchup_prediction\<close> once more, statement by statement as above, with every
  float operation rounded and every decimal literal read as the nearest float.
\<close>

fun recent_event_loop_b64 ::
  "UpcomingGame \<Rightarrow> LifeEvent list \<Rightarrow> real \<times> LifeEvent list \<Rightarrow> real \<times> LifeEvent list" where
  "recent_event_loop_b64 g [] acc = acc"
| "recent_event_loop_b64 g (e # es) (event_impact, recent_events) =
     (let days_until_game = days_between (ug_game_date g) (event_date e)
      in if 0 \<le> days_until_game \<and> days_until_game \<le> 7
         then recent_event_loop_b64 g es
                (if event_type e = ''positive'' then b64 (event_impact + b64 0.12)
                 else b64 (event_impact - b64 0.08),
                 recent_events @ [e])
         else recent_event_loop_b64 g es (event_impact, recent_events))"

definition rank_adjustment_b64 :: "real \<Rightarrow> int \<Rightarrow> real" where
  \<comment> \<open>\<open>rank_multiplier = 1 + ((rank - 16) * 0.02)\<close>, then
     \<open>base_projection * (rank_multiplier - 1)\<close>\<close>
  "rank_adjustment_b64 base rank =
     (let rank_multiplier = b64 (1 + b64 (float_of_int (rank - 16) * b64 0.02))
      in b64 (base * b64 (rank_multiplier - 1)))"

definition calculate_matchup_prediction_b64 ::
  "database \<Rightarrow> Player \<Rightarrow> UpcomingGame \<Rightarrow> LifeEvent list \<Rightarrow> PlayerStats list \<Rightarrow> prediction" where
  "calculate_matchup_prediction_b64 db player upcoming_game life_events stats =
    (if stats = [] then initial_prediction
     else
      let season_avg_rec_yards = average_b64 receiving_yards stats;
          season_avg_rush_yards = average_b64 rushing_yards stats;
          base = (if pass_catcher player then season_avg_rec_yards else season_avg_rush_yards);
          (event_impact, recent_events) = recent_event_loop_b64 upcoming_game life_events (0, []);
          event_adj = (if recent_events \<noteq> [] then b64 (base * event_impact) else 0);
          factors1 = (if recent_events \<noteq> [] then map (event_factor upcoming_game) recent_events
                      else []);
          defense = query_defense db upcoming_game;
          (opponent_adj, factors2) =
            (case defense of
               None \<Rightarrow> (0, factors1)
             | Some d \<Rightarrow>
                 if pass_catcher player
                 then let rank = pass_defense_rank d
                      in (rank_adjustment_b64 base rank, factors1 @ matchup_factor rank ''pass'')
                 else let rank = rush_defense_rank d
                      in (rank_adjustment_b64 base rank, factors1 @ matchup_factor rank ''run''));
          vs_team_history = query_history db player upcoming_game;
          factors3 =
            (if vs_team_history \<noteq> [] then
               let avg_vs_team = (if pass_catcher player
                                  then average_b64 vh_receiving_yards vs_team_history
                                  else average_b64 vh_rushing_yards vs_team_history)
               in if b64 (base * b64 1.15) < avg_vs_team
                  then factors2 @ [StrongHistory (opponent upcoming_game) (length vs_team_history)]
                  else if avg_vs_team < b64 (base * b64 0.85)
                  then factors2 @ [Struggles (opponent upcoming_game) (length vs_team_history)]
                  else factors2
             else factors2);
          final = round_b64 (b64 (b64 (base + event_adj) + opponent_adj)) 1;
          conf = confidence_factors recent_events defense vs_team_history stats;
          rec =
            (if truthy (prop_receiving_yards upcoming_game) \<or> truthy (prop_rush_yards upcoming_game)
             then
               let prop_line = (if pass_catcher player then prop_receiving_yards upcoming_game
                                else prop_rush_yards upcoming_game)
               in (case prop_line of
                     None \<Rightarrow> ''HOLD''
                   | Some line \<Rightarrow>
                       if line \<noteq> 0 then
                         let diff = b64 (final - line)
                         in if 8 \<le> diff \<and> 60 \<le> conf then ''STRONG OVER''
                            else if 4 \<le> diff then ''LEAN OVER''
                            else if diff \<le> - 8 \<and> 60 \<le> conf then ''STRONG UNDER''
                            else if diff \<le> - 4 then ''LEAN UNDER''
                            else ''HOLD''
                       else ''HOLD'')
             else ''HOLD'');
          stored = query_stats db player;
          (conf', factors4) =
            (case stored of
               [] \<Rightarrow> (conf, factors3)
             | s0 # _ \<Rightarrow>
                 let stats_year = year (game_date s0)
                 in if ug_season upcoming_game \<noteq> stats_year
                    then (py_int (b64 (float_of_int conf * b64 0.85)), factors3 @ [CrossSeason])
                    else (conf, factors3))
      in \<lparr>base_projection = base, event_adjustment = event_adj,
          opponent_adjustment = opponent_adj, final_projection = final,
          confidence = conf', recommendation = rec, factors = factors4\<rparr>)"

section \<open>Defense profiles: \<open>add_team_defense\<close> and \<open>view_team_defense\<close>\<close>

text \<open>
  The form of \<open>add_team_defense\<close> after parsing: an optional field is \<open>None\<close> when the
  request does not carry it, and the default of \<open>request.form.get\<close> applies. The row is
  stored as submitted; a second row for one team, season and week violates the unique
  constraint of the table.
\<close>

record defense_form =
  form_team_abbr :: string
  form_season :: int
  form_week :: int
  form_pass_yards_allowed :: "real option"
  form_rush_yards_allowed :: "real option"
  form_passing_tds_allowed :: "int option"
  form_rushing_tds_allowed :: "int option"
  form_sacks :: "int option"
  form_rec_yards_to_rbs :: "real option"
  form_rec_yards_to_wrs :: "real option"
  form_rec_yards_to_tes :: "real option"
  form_pass_defense_rank :: "int option"
  form_rush_defense_rank :: "int option"

definition form_get :: "'a option \<Rightarrow> 'a \<Rightarrow> 'a" where
  \<comment> \<open>\<open>request.form.get(key, default)\<close>\<close>
  "form_get v fallback = (case v of None \<Rightarrow> fallback | Some x \<Rightarrow> x)"

definition add_team_defense :: "database \<Rightarrow> defense_form \<Rightarrow> py_error + database" where
  "add_team_defense db form =
     (let defense =
            \<lparr>team_abbr = form_team_abbr form, season = form_season form, week = form_week form,
             pass_yards_allowed_per_game = form_get (form_pass_yards_allowed form) 0,
             rush_yards_allowed_per_game = form_get (form_rush_yards_allowed form) 0,
             passing_tds_allowed = form_get (form_passing_tds_allowed form) 0,
             rushing_tds_allowed = form_get (form_rushing_tds_allowed form) 0,
             sacks = form_get (form_sacks form) 0,
             rec_yards_allowed_to_rbs = form_get (form_rec_yards_to_rbs form) 0,
             rec_yards_allowed_to_wrs = form_get (form_rec_yards_to_wrs form) 0,
             rec_yards_allowed_to_tes = form_get (form_rec_yards_to_tes form) 0,
             pass_defense_rank = form_get (form_pass_defense_rank form) 16,
             rush_defense_rank = form_get (form_rush_defense_rank form) 16\<rparr>
      in if filter (\<lambda>d. team_abbr d = team_abbr defense \<and> season d = season defense
                         \<and> week d = week defense) (team_defense_table db) \<noteq> []
         then Inl IntegrityError
         else Inr (db\<lparr>team_defense_table := team_defense_table db @ [defense]\<rparr>))"

text \<open>
  \<open>view_team_defense\<close> sums the rows of each team and season, in the order in which the
  keys first occur.
\<close>

record team_season_totals =
  games :: int
  total_pass_yards :: real
  total_rush_yards :: real
  total_sacks :: int
  total_pass_tds :: int
  total_rush_tds :: int
  latest_week :: int

definition totals_default :: team_season_totals where
  "totals_default =
     \<lparr>games = 0, total_pass_yards = 0, total_rush_yards = 0, total_sacks = 0,
      total_pass_tds = 0, total_rush_tds = 0, latest_week = 0\<rparr>"

definition accumulate ::
  "TeamDefenseStats \<Rightarrow> ((string \<times> int) \<times> team_season_totals) list
     \<Rightarrow> ((string \<times> int) \<times> team_season_totals) list" where
  "accumulate stat team_season_stats =
     (let key = (team_abbr stat, season stat);
          d = (case map_of team_season_stats key of None \<Rightarrow> totals_default | Some d \<Rightarrow> d)
      in AList.update key
           (d\<lparr>games := games d + 1,
              total_pass_yards := total_pass_yards d + pass_yards_allowed_per_game stat,
              total_rush_yards := total_rush_yards d + rush_yards_allowed_per_game stat,
              total_sacks := total_sacks d + sacks stat,
              total_pass_tds := total_pass_tds d + passing_tds_allowed stat,
              total_rush_tds := total_rush_tds d + rushing_tds_allowed stat,
              latest_week := max (latest_week d) (week stat)\<rparr>)
           team_season_stats)"

text \<open>
  An entry of \<open>cumulative_stats\<close>. The dictionary has no rank until the ranking loop sets
  it; \<open>StatObject\<close> reads both ranks and raises \<open>KeyError\<close> where one is missing.
\<close>

record cumulative_stat =
  cs_team_abbr :: string
  cs_season :: int
  games_played :: int
  cs_pass_yards_allowed_per_game :: real
  cs_rush_yards_allowed_per_game :: real
  cs_sacks :: int
  cs_passing_tds_allowed :: int
  cs_rushing_tds_allowed :: int
  cs_latest_week :: int
  cs_pass_defense_rank :: "int option"
  cs_rush_defense_rank :: "int option"

record StatObject =
  so_team_abbr :: string
  so_season :: int
  so_games_played :: int
  so_pass_yards_allowed_per_game :: real
  so_rush_yards_allowed_per_game :: real
  so_sacks :: int
  so_passing_tds_allowed :: int
  so_rushing_tds_allowed :: int
  so_pass_defense_rank :: int
  so_rush_defense_rank :: int

definition cumulative_entry :: "(string \<times> int) \<times> team_season_totals \<Rightarrow> cumulative_stat" where
  "cumulative_entry kd =
     (let team = fst (fst kd); season_no = snd (fst kd); d = snd kd
      in \<lparr>cs_team_abbr = team, cs_season = season_no, games_played = games d,
          cs_pass_yards_allowed_per_game = py_round (total_pass_yards d / real_of_int (games d)) 1,
          cs_rush_yards_allowed_per_game = py_round (total_rush_yards d / real_of_int (games d)) 1,
          cs_sacks = total_sacks d, cs_passing_tds_allowed = total_pass_tds d,
          cs_rushing_tds_allowed = total_rush_tds d, cs_latest_week = latest_week d,
          cs_pass_defense_rank = None, cs_rush_defense_rank = None\<rparr>)"

definition cumulative_stats :: "database \<Rightarrow> cumulative_stat list" where
  \<comment> \<open>the list after \<open>cumulative_stats.sort(key=season, reverse=True)\<close>, a stable sort\<close>
  "cumulative_stats db =
     rev (sort_key cs_season
            (rev (map cumulative_entry (fold accumulate (team_defense_table db) []))))"

text \<open>
  The ranking loop. \<open>sorted\<close> returns a new list of the same dictionaries, so the sorted
  list is a list of references into \<open>season_stats\<close> (positions), sorted stably by the key;
  \<open>stat[rank_key] = rank\<close> updates the dictionary at that position.
\<close>

definition enumerate1 :: "'a list \<Rightarrow> (int \<times> 'a) list" where
  \<comment> \<open>\<open>enumerate(xs, 1)\<close>\<close>
  "enumerate1 xs = zip (map int [1..<Suc (length xs)]) xs"

definition set_at :: "(int \<Rightarrow> 'a \<Rightarrow> 'a) \<Rightarrow> int \<times> nat \<Rightarrow> 'a list \<Rightarrow> 'a list" where
  "set_at set_rank ri store = store[snd ri := set_rank (fst ri) (store ! snd ri)]"

definition assign_ranks ::
  "('a \<Rightarrow> real) \<Rightarrow> (int \<Rightarrow> 'a \<Rightarrow> 'a) \<Rightarrow> 'a list \<Rightarrow> 'a list" where
  "assign_ranks key set_rank season_stats =
     (let season_stats_sorted = sort_key (\<lambda>i. key (season_stats ! i)) [0..<length season_stats]
      in fold (set_at set_rank) (enumerate1 season_stats_sorted) season_stats)"

definition stat_object :: "cumulative_stat \<Rightarrow> py_error + StatObject" where
  "stat_object d =
     (case (cs_pass_defense_rank d, cs_rush_defense_rank d) of
        (Some pass_rank, Some rush_rank) \<Rightarrow>
          Inr \<lparr>so_team_abbr = cs_team_abbr d, so_season = cs_season d,
               so_games_played = games_played d,
               so_pass_yards_allowed_per_game = cs_pass_yards_allowed_per_game d,
               so_rush_yards_allowed_per_game = cs_rush_yards_allowed_per_game d,
               so_sacks = cs_sacks d, so_passing_tds_allowed = cs_passing_tds_allowed d,
               so_rushing_tds_allowed = cs_rushing_tds_allowed d,
               so_pass_defense_rank = pass_rank, so_rush_defense_rank = rush_rank\<rparr>
      | _ \<Rightarrow> Inl KeyError)"

fun stat_objects :: "cumulative_stat list \<Rightarrow> py_error + StatObject list" where
  "stat_objects [] = Inr []"
| "stat_objects (d # ds) =
     bind_result (stat_object d) (\<lambda>obj. bind_result (stat_objects ds) (\<lambda>objs. Inr (obj # objs)))"

definition ranked_season :: "cumulative_stat list \<Rightarrow> int \<Rightarrow> cumulative_stat list" where
  "ranked_season all_cumulative season_no =
     (let season_stats = filter (\<lambda>s. cs_season s = season_no) all_cumulative;
          ranked_pass = assign_ranks cs_pass_yards_allowed_per_game
                          (\<lambda>rank s. s\<lparr>cs_pass_defense_rank := Some rank\<rparr>) season_stats
      in assign_ranks cs_rush_yards_allowed_per_game
           (\<lambda>rank s. s\<lparr>cs_rush_defense_rank := Some rank\<rparr>) ranked_pass)"

definition season_view :: "database \<Rightarrow> int \<Rightarrow> py_error + StatObject list" where
  \<comment> \<open>the value of \<open>grouped_stats\<close> for one season\<close>
  "season_view db season_no = stat_objects (ranked_season (cumulative_stats db) season_no)"

definition py_max :: "int list \<Rightarrow> py_error + int" where
  \<comment> \<open>\<open>max(...)\<close> raises \<open>ValueError\<close> on an empty sequence\<close>
  "py_max xs = (case xs of [] \<Rightarrow> Inl ValueError | x # rest \<Rightarrow> Inr (fold max rest x))"

definition view_team_defense ::
  "database \<Rightarrow> py_error + ((int \<times> int) \<times> StatObject list) list" where
  \<comment> \<open>\<open>grouped_stats\<close>: per season of the table, keyed by the season and its latest week.
     The source walks the seasons as a set; the model takes them in order of first occurrence.\<close>
  "view_team_defense db =
     fold (\<lambda>season_no acc.
             bind_result acc (\<lambda>groups.
             bind_result
               (py_max (map cs_latest_week
                          (filter (\<lambda>s. cs_season s = season_no) (cumulative_stats db))))
               (\<lambda>latest.
             bind_result (season_view db season_no) (\<lambda>objs.
             Inr (groups @ [((season_no, latest), objs)])))))
       (remdups (map cs_season (cumulative_stats db))) (Inr [])"

section \<open>Reference definitions and sample data\<close>


definition in_event_window :: "UpcomingGame \<Rightarrow> LifeEvent \<Rightarrow> bool" where
  "in_event_window g e =
     (0 \<le> days_between (ug_game_date g) (event_date e)
      \<and> days_between (ug_game_date g) (event_date e) \<le> 7)"

text \<open>The recommendation rule in the words of the specification.\<close>

definition spec_recommendation :: "real \<Rightarrow> int \<Rightarrow> string" where
  "spec_recommendation diff conf =
     (if 8 \<le> diff \<and> 60 \<le> conf then ''STRONG OVER''
      else if 4 \<le> diff then ''LEAN OVER''
      else if diff \<le> - 8 \<and> 60 \<le> conf then ''STRONG UNDER''
      else if diff \<le> - 4 then ''LEAN UNDER''
      else ''HOLD'')"

text \<open>The prop line of the field that the position selects.\<close>

definition relevant_prop_line :: "Player \<Rightarrow> UpcomingGame \<Rightarrow> real option" where
  "relevant_prop_line p g =
     (if pass_catcher p then prop_receiving_yards g else prop_rush_yards g)"

text \<open>
  The confidence score as step 6 sums it, before the cross-season scaling that the function
  applies at its end, and the condition of that scaling.
\<close>

definition data_confidence ::
  "database \<Rightarrow> Player \<Rightarrow> UpcomingGame \<Rightarrow> LifeEvent list \<Rightarrow> PlayerStats list \<Rightarrow> int" where
  "data_confidence db p g evs st =
     confidence_factors (filter (in_event_window g) evs) (query_defense db g)
       (query_history db p g) st"

definition cross_season :: "database \<Rightarrow> Player \<Rightarrow> UpcomingGame \<Rightarrow> bool" where
  "cross_season db p g =
     (case query_stats db p of [] \<Rightarrow> False | s0 # _ \<Rightarrow> ug_season g \<noteq> year (game_date s0))"

text \<open>A receiver with ten games averaging 60 receiving yards, and a matchup in week 11.\<close>

definition mk_date :: "int \<Rightarrow> int \<Rightarrow> int \<Rightarrow> date" where
  "mk_date y m d = \<lparr>year = y, month = m, day = d\<rparr>"

definition mk_stats :: "int \<Rightarrow> date \<Rightarrow> int \<Rightarrow> int \<Rightarrow> real \<Rightarrow> PlayerStats" where
  "mk_stats pid d rec_yds rush_yds fp =
     \<lparr>player_id = pid, game_date = d, rushing_yards = rush_yds, rushing_tds = 0, receptions = 5,
      receiving_yards = rec_yds, receiving_tds = 0, targets = 8, fantasy_points = fp\<rparr>"

definition mk_event :: "string \<Rightarrow> string \<Rightarrow> date \<Rightarrow> LifeEvent" where
  "mk_event ty cat d =
     \<lparr>le_player_id = 1, event_type = ty, event_category = cat, event_description = cat,
      event_date = d\<rparr>"

definition ex_player :: Player where
  "ex_player = \<lparr>player_ident = 1, name = ''Sample Receiver'', team = ''KC'', position = ''WR''\<rparr>"

definition ex_stats :: "PlayerStats list" where
  "ex_stats =
     [mk_stats 1 (mk_date 2024 9 8) 50 0 10, mk_stats 1 (mk_date 2024 9 15) 70 0 12,
      mk_stats 1 (mk_date 2024 9 22) 55 0 10, mk_stats 1 (mk_date 2024 9 29) 65 0 12,
      mk_stats 1 (mk_date 2024 10 6) 60 0 11, mk_stats 1 (mk_date 2024 10 13) 60 0 11,
      mk_stats 1 (mk_date 2024 10 20) 40 0 9, mk_stats 1 (mk_date 2024 10 27) 80 0 13,
      mk_stats 1 (mk_date 2024 11 3) 45 0 9, mk_stats 1 (mk_date 2024 11 10) 75 0 13]"

definition ex_game :: UpcomingGame where
  "ex_game = \<lparr>ug_player_id = 1, ug_game_date = mk_date 2024 11 17, opponent = ''BUF'',
     home_away = ''HOME'', ug_week = 11, ug_season = 2024, prop_receiving_yards = None,
     prop_receptions = None, prop_rush_yards = None\<rparr>"

definition ex_event :: LifeEvent where
  "ex_event = mk_event ''positive'' ''birth'' (mk_date 2024 11 14)"

definition ex_defense :: "int \<Rightarrow> TeamDefenseStats" where
  "ex_defense pass_rank = \<lparr>team_abbr = ''BUF'', season = 2024, week = 11,
     pass_yards_allowed_per_game = 205, rush_yards_allowed_per_game = 110,
     passing_tds_allowed = 14, rushing_tds_allowed = 8, sacks = 30,
     rec_yards_allowed_to_rbs = 0, rec_yards_allowed_to_wrs = 0, rec_yards_allowed_to_tes = 0,
     pass_defense_rank = pass_rank, rush_defense_rank = 12\<rparr>"

definition ex_db :: database where
  "ex_db = \<lparr>player_table = [ex_player], player_stats_table = ex_stats,
     life_event_table = [ex_event], team_defense_table = [ex_defense 5],
     vs_team_history_table = [], correlation_analysis_table = []\<rparr>"

text \<open>Variants of the sample with other stored tables.\<close>

definition ex_db_rank20 :: database where
  "ex_db_rank20 = ex_db\<lparr>team_defense_table := [ex_defense 20]\<rparr>"

definition ex_db_extra :: database where
  "ex_db_extra = ex_db\<lparr>team_defense_table := [(ex_defense 9)\<lparr>team_abbr := ''NYJ''\<rparr>, ex_defense 5],
     player_stats_table := ex_stats @ [mk_stats 2 (mk_date 2023 9 10) 30 0 5]\<rparr>"

text \<open>The two samples of a correlation, each centred at its mean, as pairs.\<close>

definition centered :: "real list \<Rightarrow> real list \<Rightarrow> (real \<times> real) list" where
  "centered xs ys = map (\<lambda>(x, y). (x - fmean xs, y - fmean ys)) (zip xs ys)"

text \<open>
  Sample data for the correlation analysis: one player, three games and three injuries on
  consecutive days. Each injury has the game of 1 September alone in its 30-day window
  before, so the before-means are 10, 10, 10; the after-means are 12, 16, 16. The second
  database keeps two of the injuries only.
\<close>

definition mk_injury :: "date \<Rightarrow> LifeEvent" where
  "mk_injury d = \<lparr>le_player_id = 1, event_type = ''injury'', event_category = ''health'',
     event_description = ''injury'', event_date = d\<rparr>"

definition nan_db :: database where
  "nan_db = \<lparr>player_table = [ex_player],
     player_stats_table =
       [mk_stats 1 (mk_date 2024 9 1) 50 0 10, mk_stats 1 (mk_date 2024 9 20) 60 0 12,
        mk_stats 1 (mk_date 2024 10 11) 90 0 20],
     life_event_table =
       [mk_injury (mk_date 2024 9 10), mk_injury (mk_date 2024 9 11),
        mk_injury (mk_date 2024 9 12)],
     team_defense_table = [], vs_team_history_table = [], correlation_analysis_table = []\<rparr>"

definition two_injuries_db :: database where
  "two_injuries_db =
     nan_db\<lparr>life_event_table := [mk_injury (mk_date 2024 9 10), mk_injury (mk_date 2024 9 11)]\<rparr>"

definition ttest_stub :: "real list \<Rightarrow> real list \<Rightarrow> pyfloat \<times> pyfloat" where
  "ttest_stub before_scores after_scores = (Num 0, Num 1)"

text \<open>
  The change of one analysed event in a statistic, 0 where the statistic has no entry, and
  the events whose type is neither \<open>positive\<close> nor \<open>negative\<close>.
\<close>

definition change_or_zero :: "stat_key \<Rightarrow> event_analysis_entry \<Rightarrow> real" where
  "change_or_zero k e = (case map_of (changes e) k of None \<Rightarrow> 0 | Some c \<Rightarrow> change c)"

definition other_type :: "event_analysis_entry \<Rightarrow> bool" where
  "other_type e =
     (event_type (event e) \<noteq> ''positive'' \<and> event_type (event e) \<noteq> ''negative'')"

text \<open>
  Sample data for the profile: six games, three before and three after one life event of
  the given type, with the given fantasy points before and after.
\<close>

definition six_games :: "real \<Rightarrow> real \<Rightarrow> PlayerStats list" where
  "six_games fp_before fp_after =
     [mk_stats 1 (mk_date 2024 9 8) 40 0 fp_before, mk_stats 1 (mk_date 2024 9 15) 50 0 fp_before,
      mk_stats 1 (mk_date 2024 9 22) 60 0 fp_before, mk_stats 1 (mk_date 2024 10 6) 70 0 fp_after,
      mk_stats 1 (mk_date 2024 10 13) 80 0 fp_after, mk_stats 1 (mk_date 2024 10 20) 90 0 fp_after]"

definition analytics_db :: "real \<Rightarrow> real \<Rightarrow> string \<Rightarrow> database" where
  "analytics_db fp_before fp_after ty =
     \<lparr>player_table = [ex_player], player_stats_table = six_games fp_before fp_after,
      life_event_table = [mk_event ty ''family'' (mk_date 2024 9 30)],
      team_defense_table = [], vs_team_history_table = [], correlation_analysis_table = []\<rparr>"

text \<open>
  The references that the ranking loop walks through, the profiles of one season, and the
  object that \<open>StatObject\<close> builds from a ranked dictionary.
\<close>

definition rank_refs :: "('a \<Rightarrow> real) \<Rightarrow> 'a list \<Rightarrow> nat list" where
  "rank_refs key ss = sort_key (\<lambda>i. key (ss ! i)) [0..<length ss]"

definition season_profiles :: "database \<Rightarrow> int \<Rightarrow> cumulative_stat list" where
  "season_profiles db season_no = filter (\<lambda>s. cs_season s = season_no) (cumulative_stats db)"

definition to_object :: "cumulative_stat \<Rightarrow> StatObject" where
  "to_object d =
     \<lparr>so_team_abbr = cs_team_abbr d, so_season = cs_season d, so_games_played = games_played d,
      so_pass_yards_allowed_per_game = cs_pass_yards_allowed_per_game d,
      so_rush_yards_allowed_per_game = cs_rush_yards_allowed_per_game d,
      so_sacks = cs_sacks d, so_passing_tds_allowed = cs_passing_tds_allowed d,
      so_rushing_tds_allowed = cs_rushing_tds_allowed d,
      so_pass_defense_rank = the (cs_pass_defense_rank d),
      so_rush_defense_rank = the (cs_rush_defense_rank d)\<rparr>"

text \<open>A sequence of \<open>add_team_defense\<close> requests, stopped by the first exception.\<close>

fun add_all :: "database \<Rightarrow> defense_form list \<Rightarrow> py_error + database" where
  "add_all db [] = Inr db"
| "add_all db (form # forms) = bind_result (add_team_defense db form) (\<lambda>db'. add_all db' forms)"

text \<open>
  Sample data: a table with three teams in 2024, two of them level on passing yards, and
  forms that submit no rank.
\<close>

definition mk_defense :: "string \<Rightarrow> int \<Rightarrow> int \<Rightarrow> real \<Rightarrow> real \<Rightarrow> int \<Rightarrow> int \<Rightarrow> TeamDefenseStats" where
  "mk_defense t s w py ry pr rr = \<lparr>team_abbr = t, season = s, week = w,
     pass_yards_allowed_per_game = py, rush_yards_allowed_per_game = ry,
     passing_tds_allowed = 1, rushing_tds_allowed = 1, sacks = 2,
     rec_yards_allowed_to_rbs = 0, rec_yards_allowed_to_wrs = 0, rec_yards_allowed_to_tes = 0,
     pass_defense_rank = pr, rush_defense_rank = rr\<rparr>"

definition defense_db :: database where
  "defense_db = \<lparr>player_table = [], player_stats_table = [], life_event_table = [],
     team_defense_table =
       [mk_defense ''KC'' 2024 1 250 100 16 16, mk_defense ''BUF'' 2024 1 200 120 16 16,
        mk_defense ''NYJ'' 2024 1 230 90 16 16, mk_defense ''KC'' 2024 2 210 110 16 16,
        mk_defense ''KC'' 2023 1 190 95 1 1],
     vs_team_history_table = [], correlation_analysis_table = []\<rparr>"

definition empty_db :: database where
  "empty_db = \<lparr>player_table = [], player_stats_table = [], life_event_table = [],
     team_defense_table = [], vs_team_history_table = [], correlation_analysis_table = []\<rparr>"

definition blank_form :: "string \<Rightarrow> real \<Rightarrow> real \<Rightarrow> defense_form" where
  "blank_form t py ry = \<lparr>form_team_abbr = t, form_season = 2024, form_week = 1,
     form_pass_yards_allowed = Some py, form_rush_yards_allowed = Some ry,
     form_passing_tds_allowed = None, form_rushing_tds_allowed = None, form_sacks = None,
     form_rec_yards_to_rbs = None, form_rec_yards_to_wrs = None, form_rec_yards_to_tes = None,
     form_pass_defense_rank = None, form_rush_defense_rank = None\<rparr>"

text \<open>
  The cross-season scaling \<open>int(confidence * 0.85)\<close> on machine floats, and the literal
  \<open>7.2\<close> as Python reads it.
\<close>

definition cross_season_scale :: "int \<Rightarrow> int" where
  "cross_season_scale c = py_int (b64 (float_of_int c * b64 0.85))"

text \<open>
  Sample data for a matchup of the 2025 season: four stored games of 2024 with 60
  receiving yards each, a positive event three days before the matchup, a stored profile
  with pass-defense rank 5 and a prop line of 45.5.
\<close>

definition cross_stats :: "PlayerStats list" where
  "cross_stats =
     [mk_stats 1 (mk_date 2024 12 8) 60 0 11, mk_stats 1 (mk_date 2024 12 15) 60 0 11,
      mk_stats 1 (mk_date 2024 12 22) 60 0 11, mk_stats 1 (mk_date 2024 12 29) 60 0 11]"

definition cross_game :: UpcomingGame where
  "cross_game = \<lparr>ug_player_id = 1, ug_game_date = mk_date 2025 9 14, opponent = ''BUF'',
     home_away = ''AWAY'', ug_week = 2, ug_season = 2025, prop_receiving_yards = Some (91 / 2),
     prop_receptions = None, prop_rush_yards = None\<rparr>"

definition cross_event :: LifeEvent where
  "cross_event = mk_event ''positive'' ''birth'' (mk_date 2025 9 11)"

definition cross_db :: database where
  "cross_db = \<lparr>player_table = [ex_player], player_stats_table = cross_stats,
     life_event_table = [cross_event],
     team_defense_table = [(ex_defense 5)\<lparr>season := 2025, week := 2\<rparr>],
     vs_team_history_table = [], correlation_analysis_table = []\<rparr>"

text \<open>
  Variants of the first sample database: without the defense profile, with a head-to-head
  row, and with a stored game of 2023 in front.
\<close>

definition ex_db_no_defense :: database where
  "ex_db_no_defense = ex_db\<lparr>team_defense_table := []\<rparr>"

definition ex_db_history :: database where
  "ex_db_history =
     ex_db\<lparr>vs_team_history_table :=
             [\<lparr>vh_player_id = 1, opponent_team = ''BUF'', vh_game_date = mk_date 2023 11 5,
               vh_receiving_yards = 70, vh_rushing_yards = 0\<rparr>]\<rparr>"

definition ex_db_2023 :: database where
  "ex_db_2023 =
     ex_db\<lparr>player_stats_table := mk_stats 1 (mk_date 2023 12 31) 55 0 10 # ex_stats\<rparr>"

section \<open>Properties of the matchup projection\<close>











section \<open>Properties of the correlation analysis\<close>

lemma calculate_correlation_Some:
  assumes "calculate_correlation tt db pid et dbf daf = Some r"
  shows "\<exists>b a. score_loop db pid dbf daf (query_events db pid et) ([], []) = Some (b, a)
           \<and> 3 \<le> length b \<and> 3 \<le> length a
           \<and> sample_size r = int (length b + length a)
           \<and> ca_player_id r = pid \<and> ca_event_type r = et
           \<and> correlation_coefficient r = (if length b = length a then corrcoef b a else Num 0)"
proof -
  let ?s = "score_loop db pid dbf daf (query_events db pid et) ([], [])"
  from assms have ne: "query_events db pid et \<noteq> []"
    by (auto simp: calculate_correlation_def Let_def split: if_splits)
  with assms obtain b a where s: "?s = Some (b, a)"
    by (cases ?s) (auto simp: calculate_correlation_def Let_def)
  with assms ne have "3 \<le> length b \<and> 3 \<le> length a
           \<and> sample_size r = int (length b + length a)
           \<and> ca_player_id r = pid \<and> ca_event_type r = et
           \<and> correlation_coefficient r = (if length b = length a then corrcoef b a else Num 0)"
    by (auto simp: calculate_correlation_def Let_def split_beta split: if_splits)
  with s show ?thesis by blast
qed

lemma analysis_rows_origin:
  assumes "r \<in> set (analysis_rows tt db)"
  shows "calculate_correlation tt db (ca_player_id r) (ca_event_type r) 30 30 = Some r"
proof -
  from assms obtain pid et where "calculate_correlation tt db pid et 30 30 = Some r"
    by (auto simp: analysis_rows_def List.map_filter_def)
  moreover from this have "ca_player_id r = pid \<and> ca_event_type r = et"
    using calculate_correlation_Some by blast
  ultimately show ?thesis by simp
qed

lemma nan_db_scores:
  "score_loop nan_db 1 30 30 (query_events nan_db 1 ''injury'') ([], [])
     = Some ([10, 10, 10], [12, 16, 16])"
  by code_simp

lemma two_injuries_db_scores:
  "score_loop two_injuries_db 1 30 30 (query_events two_injuries_db 1 ''injury'') ([], [])
     = Some ([10, 10], [12, 16])"
  by code_simp

lemma corrcoef_constant_sample: "corrcoef [10, 10, 10] [12, 16, 16] = NaN"
  by (simp add: corrcoef_def covariance_def fmean_def)

lemma nan_db_result:
  "map_option correlation_coefficient (calculate_correlation tt nan_db 1 ''injury'' 30 30)
     = Some NaN
   \<and> map_option sample_size (calculate_correlation tt nan_db 1 ''injury'' 30 30) = Some 6"
proof -
  have q: "query_events nan_db 1 ''injury'' \<noteq> []" by code_simp
  show ?thesis
    by (simp add: calculate_correlation_def Let_def split_beta q nan_db_scores
          corrcoef_constant_sample)
qed

text \<open>
  C3. The analysis returns no result whenever fewer than three before-means or fewer than
  three after-means were collected; a result that is returned has a sample size of at
  least 6; and an analysis without result adds no row for its player and event type in
  \<open>run_analysis_cycle\<close>.
\<close>

theorem insufficient_data_no_result:
  "(score_loop db pid dbf daf (query_events db pid et) ([], []) = Some (b, a)
      \<and> (length b < 3 \<or> length a < 3)
     \<longrightarrow> calculate_correlation tt db pid et dbf daf = None)
   \<and> (calculate_correlation tt db pid et dbf daf = Some r \<longrightarrow> 6 \<le> sample_size r)
   \<and> (calculate_correlation tt db pid et 30 30 = None
     \<longrightarrow> filter (\<lambda>row. ca_player_id row = pid \<and> ca_event_type row = et) (analysis_rows tt db) = [])"
proof (intro conjI impI)
  assume "score_loop db pid dbf daf (query_events db pid et) ([], []) = Some (b, a)
      \<and> (length b < 3 \<or> length a < 3)"
  then show "calculate_correlation tt db pid et dbf daf = None"
    by (auto simp: calculate_correlation_def Let_def)
next
  assume "calculate_correlation tt db pid et dbf daf = Some r"
  from calculate_correlation_Some [OF this] show "6 \<le> sample_size r" by auto
next
  assume n: "calculate_correlation tt db pid et 30 30 = None"
  show "filter (\<lambda>row. ca_player_id row = pid \<and> ca_event_type row = et) (analysis_rows tt db) = []"
  proof (rule ccontr)
    assume "\<not> ?thesis"
    then obtain row where "row \<in> set (analysis_rows tt db)"
      and "ca_player_id row = pid" and "ca_event_type row = et"
      by (auto simp: filter_empty_conv)
    with analysis_rows_origin [of row tt db] n show False by simp
  qed
qed

text \<open>
  Two injuries give two before-means and two after-means: no result and no row. Three
  injuries give three of each: a result of sample size 6.
\<close>

theorem insufficient_data_no_result_witness:
  "calculate_correlation ttest_stub two_injuries_db 1 ''injury'' 30 30 = None
   \<and> filter (\<lambda>row. ca_player_id row = 1 \<and> ca_event_type row = ''injury'')
       (analysis_rows ttest_stub two_injuries_db) = []
   \<and> (\<exists>r. calculate_correlation ttest_stub nan_db 1 ''injury'' 30 30 = Some r
          \<and> 6 \<le> sample_size r)"
proof -
  note T = insufficient_data_no_result [where tt = ttest_stub and pid = 1 and et = "''injury''"]
  have n: "calculate_correlation ttest_stub two_injuries_db 1 ''injury'' 30 30 = None"
    using T [where db = two_injuries_db and dbf = 30 and daf = 30 and b = "[10, 10]"
        and a = "[12, 16]"] two_injuries_db_scores
    by simp
  have rows: "filter (\<lambda>row. ca_player_id row = 1 \<and> ca_event_type row = ''injury'')
       (analysis_rows ttest_stub two_injuries_db) = []"
    using T [where db = two_injuries_db and dbf = 30 and daf = 30] n by blast
  from nan_db_result [of ttest_stub]
  obtain r where r: "calculate_correlation ttest_stub nan_db 1 ''injury'' 30 30 = Some r"
    by auto
  with T [where db = nan_db and dbf = 30 and daf = 30 and r = r]
  have "6 \<le> sample_size r" by blast
  with n rows r show ?thesis by blast
qed

text \<open>
  The Cauchy-Schwarz inequality for a list of pairs, from the quadratic
  \<open>\<Sum>(x t + y)\<^sup>2 \<ge> 0\<close>; with it the coefficient of two samples of one length lies in
  \<open>[-1, 1]\<close> whenever it is a number.
\<close>

lemma sum_quadratic:
  fixes ps :: "(real \<times> real) list"
  shows "(\<Sum>(x, y)\<leftarrow>ps. (x * t + y)\<^sup>2)
           = (\<Sum>(x, y)\<leftarrow>ps. x\<^sup>2) * t\<^sup>2 + 2 * (\<Sum>(x, y)\<leftarrow>ps. x * y) * t + (\<Sum>(x, y)\<leftarrow>ps. y\<^sup>2)"
  by (induction ps) (auto simp: algebra_simps power2_eq_square)

lemma sum_squares_nonneg:
  fixes ps :: "(real \<times> real) list" and f :: "real \<Rightarrow> real \<Rightarrow> real"
  shows "0 \<le> (\<Sum>(x, y)\<leftarrow>ps. (f x y)\<^sup>2)"
  by (induction ps) auto

lemma cauchy_schwarz_list:
  fixes ps :: "(real \<times> real) list"
  shows "(\<Sum>(x, y)\<leftarrow>ps. x * y)\<^sup>2 \<le> (\<Sum>(x, y)\<leftarrow>ps. x\<^sup>2) * (\<Sum>(x, y)\<leftarrow>ps. y\<^sup>2)"
proof -
  let ?A = "\<Sum>(x, y)\<leftarrow>ps. x\<^sup>2" and ?B = "\<Sum>(x, y)\<leftarrow>ps. y\<^sup>2" and ?C = "\<Sum>(x, y)\<leftarrow>ps. x * y"
  have q: "0 \<le> ?A * t\<^sup>2 + 2 * ?C * t + ?B" for t
    using sum_squares_nonneg [of "\<lambda>x y. x * t + y" ps] by (simp add: sum_quadratic)
  have A: "0 \<le> ?A" using sum_squares_nonneg [of "\<lambda>x y. x" ps] by simp
  show ?thesis
  proof (cases "?A = 0")
    case True
    have "?C = 0"
    proof (rule ccontr)
      assume c: "?C \<noteq> 0"
      from q [of "- (?B + 1) / (2 * ?C)"] True c show False by simp
    qed
    with True show ?thesis by simp
  next
    case False
    with A have pos: "0 < ?A" by simp
    from q [of "- ?C / ?A"] have "0 \<le> ?A * (?C / ?A)\<^sup>2 - 2 * ?C * (?C / ?A) + ?B"
      by simp
    also have "?A * (?C / ?A)\<^sup>2 - 2 * ?C * (?C / ?A) + ?B = ?B - ?C\<^sup>2 / ?A"
      using False by (simp add: power2_eq_square field_simps)
    finally have "?C\<^sup>2 / ?A \<le> ?B" by simp
    with pos show ?thesis by (simp add: pos_divide_le_eq mult.commute)
  qed
qed

lemma sum_zip_fst:
  fixes g :: "real \<Rightarrow> real"
  assumes "length xs = length ys"
  shows "(\<Sum>(x, y)\<leftarrow>zip xs ys. g x) = (\<Sum>x\<leftarrow>xs. g x)"
  using assms by (induction xs ys rule: list_induct2) auto

lemma sum_zip_snd:
  fixes g :: "real \<Rightarrow> real"
  assumes "length xs = length ys"
  shows "(\<Sum>(x, y)\<leftarrow>zip xs ys. g y) = (\<Sum>y\<leftarrow>ys. g y)"
  using assms by (induction xs ys rule: list_induct2) auto

lemma sum_zip_same:
  fixes f :: "real \<Rightarrow> real \<Rightarrow> real"
  shows "(\<Sum>(x, y)\<leftarrow>zip xs xs. f x y) = (\<Sum>x\<leftarrow>xs. f x x)"
  by (induction xs) auto

lemma covariance_centered:
  assumes "length xs = length ys"
  shows "covariance xs ys = (\<Sum>(x, y)\<leftarrow>centered xs ys. x * y) / (real (length xs) - 1)"
    and "covariance xs xs = (\<Sum>(x, y)\<leftarrow>centered xs ys. x\<^sup>2) / (real (length xs) - 1)"
    and "covariance ys ys = (\<Sum>(x, y)\<leftarrow>centered xs ys. y\<^sup>2) / (real (length xs) - 1)"
proof -
  show "covariance xs ys = (\<Sum>(x, y)\<leftarrow>centered xs ys. x * y) / (real (length xs) - 1)"
    by (simp add: covariance_def centered_def comp_def split_def)
  have "(\<Sum>(x, y)\<leftarrow>centered xs ys. x\<^sup>2) = (\<Sum>(x, y)\<leftarrow>zip xs ys. (x - fmean xs)\<^sup>2)"
    by (simp add: centered_def comp_def split_def)
  also have "\<dots> = (\<Sum>x\<leftarrow>xs. (x - fmean xs)\<^sup>2)" by (rule sum_zip_fst [OF assms])
  also have "\<dots> = (\<Sum>(x, y)\<leftarrow>zip xs xs. (x - fmean xs) * (y - fmean xs))"
    by (simp add: sum_zip_same power2_eq_square)
  finally show "covariance xs xs = (\<Sum>(x, y)\<leftarrow>centered xs ys. x\<^sup>2) / (real (length xs) - 1)"
    by (simp add: covariance_def)
  have "(\<Sum>(x, y)\<leftarrow>centered xs ys. y\<^sup>2) = (\<Sum>(x, y)\<leftarrow>zip xs ys. (y - fmean ys)\<^sup>2)"
    by (simp add: centered_def comp_def split_def)
  also have "\<dots> = (\<Sum>y\<leftarrow>ys. (y - fmean ys)\<^sup>2)" by (rule sum_zip_snd [OF assms])
  also have "\<dots> = (\<Sum>(x, y)\<leftarrow>zip ys ys. (x - fmean ys) * (y - fmean ys))"
    by (simp add: sum_zip_same power2_eq_square)
  finally show "covariance ys ys = (\<Sum>(x, y)\<leftarrow>centered xs ys. y\<^sup>2) / (real (length xs) - 1)"
    using assms by (simp add: covariance_def)
qed

lemma corrcoef_bounded:
  assumes len: "length xs = length ys" and num: "corrcoef xs ys = Num r"
  shows "- 1 \<le> r \<and> r \<le> 1"
proof -
  let ?k = "real (length xs) - 1"
  let ?A = "\<Sum>(x, y)\<leftarrow>centered xs ys. x\<^sup>2" and ?B = "\<Sum>(x, y)\<leftarrow>centered xs ys. y\<^sup>2"
  let ?C = "\<Sum>(x, y)\<leftarrow>centered xs ys. x * y"
  note cov = covariance_centered [OF len]
  from num have vx: "covariance xs xs \<noteq> 0" and vy: "covariance ys ys \<noteq> 0"
    and r: "r = covariance xs ys / sqrt (covariance xs xs) / sqrt (covariance ys ys)"
    by (auto simp: corrcoef_def Let_def split: if_splits)
  have A: "0 \<le> ?A" using sum_squares_nonneg [of "\<lambda>x y. x"] by simp
  have B: "0 \<le> ?B" using sum_squares_nonneg [of "\<lambda>x y. y"] by simp
  have k: "0 < ?k"
  proof (rule ccontr)
    assume "\<not> 0 < ?k"
    then have "length xs \<le> 1" by simp
    then have "?k = 0 \<or> xs = []" by (cases xs) auto
    then have "covariance xs xs = 0" by (auto simp: covariance_def)
    with vx show False by simp
  qed
  have px: "0 < covariance xs xs" using vx A k by (simp add: cov(2) less_le)
  have py: "0 < covariance ys ys" using vy B k by (simp add: cov(3) less_le)
  have "r\<^sup>2 = (covariance xs ys)\<^sup>2 / (covariance xs xs * covariance ys ys)"
    using less_imp_le [OF px] less_imp_le [OF py]
    by (simp add: r power_divide power_mult_distrib)
  also have "\<dots> = ?C\<^sup>2 / (?A * ?B)"
    using k by (simp add: cov power_divide power2_eq_square)
  also have "\<dots> \<le> 1"
  proof -
    have "?A \<noteq> 0" using vx by (auto simp: cov(2))
    moreover have "?B \<noteq> 0" using vy by (auto simp: cov(3))
    ultimately have "0 < ?A * ?B" using A B by (simp add: less_le)
    with cauchy_schwarz_list [of "centered xs ys"] show ?thesis by simp
  qed
  finally have "r\<^sup>2 \<le> 1" .
  then have "\<bar>r\<bar> \<le> 1" by (simp add: abs_square_le_1)
  then show ?thesis by auto
qed

lemma correlation_coefficient_cases:
  assumes "calculate_correlation tt db pid et dbf daf = Some r"
  shows "correlation_coefficient r = NaN
       \<or> (\<exists>v. correlation_coefficient r = Num v \<and> - 1 \<le> v \<and> v \<le> 1)"
proof -
  from calculate_correlation_Some [OF assms] obtain b a
    where c: "correlation_coefficient r = (if length b = length a then corrcoef b a else Num 0)"
    by blast
  show ?thesis
  proof (cases "length b = length a")
    case True
    with c corrcoef_bounded [OF True] show ?thesis
      by (cases "corrcoef b a") auto
  next
    case False
    with c show ?thesis by simp
  qed
qed

text \<open>
  C4 on the sample with constant before-means: the lists have equal length, a result is
  returned, and its correlation coefficient is \<open>nan\<close>, which lies in no interval.
\<close>

theorem correlation_nan_on_constant_sample:
  "map_option correlation_coefficient (calculate_correlation tt nan_db 1 ''injury'' 30 30)
     = Some NaN"
  using nan_db_result [of tt] by simp

section \<open>Properties of the event proximity profile\<close>

lemma sum_changes_guarded:
  "sum_changes k (filter (has_key k) ea) = Inr (\<Sum>e\<leftarrow>ea. change_or_zero k e)"
  by (induction ea)
     (auto simp: has_key_def change_at_def change_or_zero_def bind_result_def)

lemma length_buckets:
  "length ea = length (filter (\<lambda>e. event_type (event e) = ''positive'') ea)
             + length (filter (\<lambda>e. event_type (event e) = ''negative'') ea)
             + length (filter other_type ea)"
  by (induction ea) (auto simp: other_type_def)

lemma betting_insights_Some:
  assumes "betting_insights ea = Inr (Some bi)"
  shows "total_events bi = length ea
       \<and> positive_events_count bi = length (filter (\<lambda>e. event_type (event e) = ''positive'') ea)
       \<and> negative_events_count bi = length (filter (\<lambda>e. event_type (event e) = ''negative'') ea)
       \<and> avg_fp_change bi
           = py_round ((\<Sum>e\<leftarrow>ea. change_or_zero FantasyPoints e) / real (length ea)) 1
       \<and> avg_yd_change bi
           = py_round ((\<Sum>e\<leftarrow>ea. change_or_zero ReceivingYards e) / real (length ea)) 1"
  using assms
  by (auto simp: betting_insights_def sum_changes_guarded bind_result_def Let_def
           split: if_splits sum.splits)

lemma player_analytics_insights:
  assumes "player_analytics db pid = Inr (ea, Some bi)"
  shows "betting_insights ea = Inr (Some bi)"
  using assms
  by (auto simp: player_analytics_def bind_result_def Let_def split: if_splits sum.splits)

lemma neutral_sample:
  "player_analytics (analytics_db 10 13 ''neutral'') 1 =
     Inr ([\<lparr>event = mk_event ''neutral'' ''family'' (mk_date 2024 9 30),
            changes =
              [(FantasyPoints, \<lparr>ch_before = 10, ch_after = 13, change = 3, change_pct = 30\<rparr>),
               (ReceivingYards, \<lparr>ch_before = 50, ch_after = 80, change = 30, change_pct = 60\<rparr>),
               (Receptions, \<lparr>ch_before = 5, ch_after = 5, change = 0, change_pct = 0\<rparr>)],
            improved = True, ea_sample_size = (3, 3)\<rparr>],
          Some \<lparr>total_events = 1, avg_fp_change = 3, avg_yd_change = 30, improved_pct = 100,
                positive_events_count = 0, negative_events_count = 0,
                positive_avg_change = 0, negative_avg_change = 0\<rparr>)"
  by code_simp

text \<open>
  C10. An analysed event whose type is neither \<open>positive\<close> nor \<open>negative\<close> is counted in
  neither bucket: the total is the two bucket counts plus the number of such events, while
  the overall average changes sum over every analysed event. For some input the two counts
  together are strictly below the total and the overall average is not zero.
\<close>

theorem other_events_in_no_bucket:
  "(betting_insights ea = Inr (Some bi) \<longrightarrow>
      total_events bi
        = positive_events_count bi + negative_events_count bi + length (filter other_type ea)
      \<and> avg_fp_change bi
          = py_round ((\<Sum>e\<leftarrow>ea. change_or_zero FantasyPoints e) / real (length ea)) 1
      \<and> avg_yd_change bi
          = py_round ((\<Sum>e\<leftarrow>ea. change_or_zero ReceivingYards e) / real (length ea)) 1)
   \<and> (\<exists>db pid ea' bi'. player_analytics db pid = Inr (ea', Some bi')
         \<and> positive_events_count bi' + negative_events_count bi' < total_events bi'
         \<and> avg_fp_change bi' \<noteq> 0)"
proof (intro conjI impI)
  assume a: "betting_insights ea = Inr (Some bi)"
  from betting_insights_Some [OF a] length_buckets [of ea]
  show "total_events bi
        = positive_events_count bi + negative_events_count bi + length (filter other_type ea)"
    by simp
  from betting_insights_Some [OF a]
  show "avg_fp_change bi
          = py_round ((\<Sum>e\<leftarrow>ea. change_or_zero FantasyPoints e) / real (length ea)) 1"
    by simp
  from betting_insights_Some [OF a]
  show "avg_yd_change bi
          = py_round ((\<Sum>e\<leftarrow>ea. change_or_zero ReceivingYards e) / real (length ea)) 1"
    by simp
next
  show "\<exists>db pid ea' bi'. player_analytics db pid = Inr (ea', Some bi')
         \<and> positive_events_count bi' + negative_events_count bi' < total_events bi'
         \<and> avg_fp_change bi' \<noteq> 0"
    by (rule exI [of _ "analytics_db 10 13 ''neutral''"], rule exI [of _ 1])
       (simp add: neutral_sample)
qed

text \<open>
  One event of type \<open>neutral\<close>: the total is 1, both buckets are empty, the average
  change in fantasy points is 3.
\<close>

theorem other_events_in_no_bucket_witness:
  "\<exists>ea bi. player_analytics (analytics_db 10 13 ''neutral'') 1 = Inr (ea, Some bi)
     \<and> total_events bi = 1
     \<and> positive_events_count bi + negative_events_count bi = 0
     \<and> length (filter other_type ea) = 1
     \<and> avg_fp_change bi = 3"
proof -
  from neutral_sample obtain ea bi
    where r: "player_analytics (analytics_db 10 13 ''neutral'') 1 = Inr (ea, Some bi)"
      and v: "positive_events_count bi + negative_events_count bi = 0" "total_events bi = 1"
        "avg_fp_change bi = 3"
    by simp
  from other_events_in_no_bucket [of ea bi] player_analytics_insights [OF r]
  have "total_events bi
        = positive_events_count bi + negative_events_count bi + length (filter other_type ea)"
    by blast
  with v have "length (filter other_type ea) = 1" by simp
  with r v show ?thesis by blast
qed

text \<open>
  The guarded totals never fail; the bucket averages fail exactly when an event of the
  bucket has no change in fantasy points.
\<close>

lemma sum_changes_error:
  "sum_changes k es = Inl KeyError \<longleftrightarrow> (\<exists>e\<in>set es. \<not> has_key k e)"
  "(\<exists>s. sum_changes k es = Inr s) \<longleftrightarrow> (\<forall>e\<in>set es. has_key k e)"
proof (induction es)
  case Nil
  { case 1 show ?case by simp }
  { case 2 show ?case by simp }
next
  case (Cons e es)
  { case 1
    show ?case
      using Cons.IH(1) by (auto simp: bind_result_def has_key_def change_at_def
                                 split: sum.splits option.splits) }
  { case 2
    show ?case
      using Cons.IH(2) by (auto simp: bind_result_def has_key_def change_at_def
                                 split: sum.splits option.splits) }
qed

lemma sum_changes_only_key_error: "sum_changes k es = Inl err \<Longrightarrow> err = KeyError"
  by (induction es arbitrary: err)
     (auto simp: bind_result_def change_at_def split: sum.splits option.splits)

lemma betting_insights_key_error:
  "betting_insights ea = Inl KeyError \<longleftrightarrow>
     (\<exists>e\<in>set ea. (event_type (event e) = ''positive'' \<or> event_type (event e) = ''negative'')
                 \<and> \<not> has_key FantasyPoints e)"
proof -
  let ?pos = "filter (\<lambda>e. event_type (event e) = ''positive'') ea"
  let ?neg = "filter (\<lambda>e. event_type (event e) = ''negative'') ea"
  have b: "bucket_average es = Inl KeyError \<longleftrightarrow> (\<exists>e\<in>set es. \<not> has_key FantasyPoints e)" for es
    using sum_changes_error [of FantasyPoints es]
    by (cases "sum_changes FantasyPoints es")
       (auto simp: bucket_average_def bind_result_def)
  have k: "bucket_average es = Inl err \<Longrightarrow> err = KeyError" for es err
    using sum_changes_only_key_error [of FantasyPoints es]
    by (auto simp: bucket_average_def bind_result_def split: if_splits sum.splits)
  have e: "ea = [] \<Longrightarrow> bucket_average ?pos = Inr 0 \<and> bucket_average ?neg = Inr 0"
    by (simp add: bucket_average_def)
  have "betting_insights ea = Inl KeyError
          \<longleftrightarrow> bucket_average ?pos = Inl KeyError \<or> bucket_average ?neg = Inl KeyError"
    using e
    by (cases "bucket_average ?pos"; cases "bucket_average ?neg")
       (auto simp: betting_insights_def sum_changes_guarded bind_result_def Let_def dest: k)
  then show ?thesis by (auto simp: b)
qed

text \<open>
  C5 on a sample: three games with 0 fantasy points before a \<open>positive\<close> event. The
  entry of the event has no \<open>fantasy_points\<close> change, the guarded totals skip it, and the
  average over the positive events reads the missing key.
\<close>

theorem key_error_on_zero_baseline:
  "player_analytics (analytics_db 0 10 ''positive'') 1 = Inl KeyError"
  by code_simp

section \<open>Properties of the defense ranks\<close>

lemma fold_set_at:
  assumes "length rs = length is" and "distinct is" and "\<forall>i\<in>set is. i < length st"
  shows "length (fold (set_at f) (zip rs is) st) = length st
       \<and> (\<forall>j<length is. fold (set_at f) (zip rs is) st ! (is ! j) = f (rs ! j) (st ! (is ! j)))
       \<and> (\<forall>i<length st. i \<notin> set is \<longrightarrow> fold (set_at f) (zip rs is) st ! i = st ! i)"
  using assms
proof (induction rs "is" arbitrary: st rule: list_induct2)
  case Nil
  then show ?case by simp
next
  case (Cons r rs i "is")
  let ?st = "st[i := f r (st ! i)]"
  have step: "fold (set_at f) (zip (r # rs) (i # is)) st = fold (set_at f) (zip rs is) ?st"
    by (simp add: set_at_def)
  from Cons.prems have d: "distinct is" and ni: "i \<notin> set is" and il: "i < length st"
    and b: "\<forall>k\<in>set is. k < length ?st" by auto
  note IH = Cons.IH [OF d b]
  show ?case
  proof (intro conjI allI impI)
    show "length (fold (set_at f) (zip (r # rs) (i # is)) st) = length st"
      using IH unfolding step by simp
  next
    fix j assume j: "j < length (i # is)"
    show "fold (set_at f) (zip (r # rs) (i # is)) st ! ((i # is) ! j)
            = f ((r # rs) ! j) (st ! ((i # is) ! j))"
    proof (cases j)
      case 0
      with IH ni il show ?thesis unfolding step by simp
    next
      case (Suc k)
      with j have k: "k < length is" by simp
      then have "is ! k \<noteq> i" using ni by (metis nth_mem)
      with IH k Suc show ?thesis unfolding step by simp
    qed
  next
    fix k assume "k < length st" and "k \<notin> set (i # is)"
    with IH show "fold (set_at f) (zip (r # rs) (i # is)) st ! k = st ! k"
      unfolding step by simp
  qed
qed

lemma rank_refs_props:
  "mset (rank_refs key ss) = mset [0..<length ss]"
  "distinct (rank_refs key ss)"
  "set (rank_refs key ss) = {0..<length ss}"
  "length (rank_refs key ss) = length ss"
  "sorted (map (\<lambda>i. key (ss ! i)) (rank_refs key ss))"
  by (simp_all add: rank_refs_def)

lemma rank_refs_surj:
  assumes "i < length ss"
  shows "\<exists>j<length ss. rank_refs key ss ! j = i"
proof -
  from assms have "i \<in> set (rank_refs key ss)" by (simp add: rank_refs_props(3))
  then obtain j where "j < length (rank_refs key ss)" and "rank_refs key ss ! j = i"
    unfolding in_set_conv_nth by blast
  then show ?thesis by (auto simp: rank_refs_props(4))
qed

text \<open>Each position receives the rank of its place in the sorted list of references.\<close>

lemma assign_ranks_nth:
  shows "length (assign_ranks key set_rank ss) = length ss"
    and "j < length ss \<Longrightarrow>
           assign_ranks key set_rank ss ! (rank_refs key ss ! j)
             = set_rank (int (Suc j)) (ss ! (rank_refs key ss ! j))"
proof -
  let ?refs = "rank_refs key ss"
  let ?rs = "map int [1..<Suc (length ?refs)]"
  have l: "length ?rs = length ?refs" by (simp del: upt_Suc)
  have d: "distinct ?refs" by (simp add: rank_refs_props)
  have b: "\<forall>i\<in>set ?refs. i < length ss" by (simp add: rank_refs_props)
  have e: "assign_ranks key set_rank ss = fold (set_at set_rank) (zip ?rs ?refs) ss"
    by (simp add: assign_ranks_def enumerate1_def rank_refs_def Let_def)
  note F = fold_set_at [OF l d b, of set_rank]
  show "length (assign_ranks key set_rank ss) = length ss" using F by (simp add: e)
  assume j: "j < length ss"
  then have j': "j < length ?refs" by (simp add: rank_refs_props)
  have "?rs ! j = int (Suc j)" using j' by (simp add: nth_append del: upt_Suc)
  with F j' show "assign_ranks key set_rank ss ! (?refs ! j)
             = set_rank (int (Suc j)) (ss ! (?refs ! j))"
    by (simp add: e)
qed

text \<open>A field that the rank update leaves alone is the same before and after.\<close>

lemma assign_ranks_frame:
  assumes "\<And>r x. h (set_rank r x) = h x"
  shows "map h (assign_ranks key set_rank ss) = map h ss"
proof (rule nth_equalityI)
  show "length (map h (assign_ranks key set_rank ss)) = length (map h ss)"
    by (simp add: assign_ranks_nth)
next
  fix i assume "i < length (map h (assign_ranks key set_rank ss))"
  then have i: "i < length ss" by (simp add: assign_ranks_nth)
  then obtain j where j: "j < length ss" and ij: "rank_refs key ss ! j = i"
    using rank_refs_surj by blast
  from assign_ranks_nth(2) [OF j, of key set_rank] ij assms
  have "h (assign_ranks key set_rank ss ! i) = h (ss ! i)" by simp
  with i show "map h (assign_ranks key set_rank ss) ! i = map h ss ! i"
    by (simp add: assign_ranks_nth)
qed

text \<open>The ranks read back from the list are the numbers 1 to N, each once.\<close>

lemma assign_ranks_perm:
  assumes "\<And>r x. get (set_rank r x) = Some r"
  shows "mset (map get (assign_ranks key set_rank ss))
           = mset (map (\<lambda>n. Some (int n)) [1..<Suc (length ss)])"
proof -
  let ?res = "assign_ranks key set_rank ss"
  let ?refs = "rank_refs key ss"
  have "map get ?res = map (\<lambda>i. get (?res ! i)) [0..<length ss]"
    by (rule nth_equalityI) (simp_all add: assign_ranks_nth)
  then have "mset (map get ?res) = image_mset (\<lambda>i. get (?res ! i)) (mset [0..<length ss])"
    by simp
  also have "\<dots> = image_mset (\<lambda>i. get (?res ! i)) (mset ?refs)"
    by (simp only: rank_refs_props(1))
  also have "\<dots> = mset (map (\<lambda>i. get (?res ! i)) ?refs)" by simp
  also have "map (\<lambda>i. get (?res ! i)) ?refs = map (\<lambda>j. Some (int (Suc j))) [0..<length ss]"
    by (rule nth_equalityI) (simp_all add: rank_refs_props assign_ranks_nth assms)
  also have "map (\<lambda>j. Some (int (Suc j))) [0..<length ss]
               = map (\<lambda>n. Some (int n)) [1..<Suc (length ss)]"
    by (rule nth_equalityI) (simp_all add: nth_append del: upt_Suc)
  finally show ?thesis .
qed

text \<open>The ranks follow the order of the key.\<close>

lemma assign_ranks_order:
  assumes g: "\<And>r x. get (set_rank r x) = Some r"
    and a: "a < length ss" and b: "b < length ss"
    and lt: "key (ss ! a) < key (ss ! b)"
  shows "the (get (assign_ranks key set_rank ss ! a)) < the (get (assign_ranks key set_rank ss ! b))"
proof -
  let ?res = "assign_ranks key set_rank ss"
  let ?refs = "rank_refs key ss"
  from a obtain i where i: "i < length ss" and ia: "?refs ! i = a"
    using rank_refs_surj by blast
  from b obtain j where j: "j < length ss" and jb: "?refs ! j = b"
    using rank_refs_surj by blast
  have "i < j"
  proof (rule ccontr)
    assume "\<not> i < j"
    then have "j \<le> i" by simp
    with rank_refs_props(5) [of key ss] i
    have "map (\<lambda>i. key (ss ! i)) ?refs ! j \<le> map (\<lambda>i. key (ss ! i)) ?refs ! i"
      by (simp add: sorted_iff_nth_mono rank_refs_props(4))
    with i j ia jb lt show False by (simp add: rank_refs_props(4))
  qed
  moreover have "get (?res ! a) = Some (int (Suc i))"
    using assign_ranks_nth(2) [OF i, of key set_rank] ia g by simp
  moreover have "get (?res ! b) = Some (int (Suc j))"
    using assign_ranks_nth(2) [OF j, of key set_rank] jb g by simp
  ultimately show ?thesis by simp
qed

lemma stat_objects_all_ranked:
  assumes "\<forall>d\<in>set ds. cs_pass_defense_rank d \<noteq> None \<and> cs_rush_defense_rank d \<noteq> None"
  shows "stat_objects ds = Inr (map to_object ds)"
  using assms
  by (induction ds) (auto simp: stat_object_def to_object_def bind_result_def)

lemma mset_ranks_the:
  assumes "mset (map g xs) = mset (map (\<lambda>n. Some (int n)) [1..<Suc (length xs)])"
  shows "mset (map (\<lambda>x. the (g x)) xs) = mset (map int [1..<Suc (length xs)])"
    and "\<forall>x\<in>set xs. g x \<noteq> None"
proof -
  have "mset (map (\<lambda>x. the (g x)) xs) = image_mset the (mset (map g xs))"
    by (simp add: multiset.map_comp comp_def)
  also have "\<dots> = image_mset the (mset (map (\<lambda>n. Some (int n)) [1..<Suc (length xs)]))"
    by (simp only: assms)
  also have "\<dots> = mset (map int [1..<Suc (length xs)])"
    by (simp add: multiset.map_comp comp_def del: upt_Suc)
  finally show "mset (map (\<lambda>x. the (g x)) xs) = mset (map int [1..<Suc (length xs)])" .
  have "set (map g xs) = set (map (\<lambda>n. Some (int n)) [1..<Suc (length xs)])"
    using assms by (metis set_mset_mset)
  then show "\<forall>x\<in>set xs. g x \<noteq> None" by (auto simp del: upt_Suc)
qed

lemma ranked_season_props:
  shows "length (ranked_season (cumulative_stats db) s) = length (season_profiles db s)"
    and "mset (map cs_pass_defense_rank (ranked_season (cumulative_stats db) s))
           = mset (map (\<lambda>n. Some (int n)) [1..<Suc (length (season_profiles db s))])"
    and "mset (map cs_rush_defense_rank (ranked_season (cumulative_stats db) s))
           = mset (map (\<lambda>n. Some (int n)) [1..<Suc (length (season_profiles db s))])"
    and "map cs_pass_yards_allowed_per_game (ranked_season (cumulative_stats db) s)
           = map cs_pass_yards_allowed_per_game (season_profiles db s)"
    and "map cs_rush_yards_allowed_per_game (ranked_season (cumulative_stats db) s)
           = map cs_rush_yards_allowed_per_game (season_profiles db s)"
proof -
  let ?ss = "season_profiles db s"
  let ?p = "assign_ranks cs_pass_yards_allowed_per_game
              (\<lambda>rank s. s\<lparr>cs_pass_defense_rank := Some rank\<rparr>) ?ss"
  let ?r = "assign_ranks cs_rush_yards_allowed_per_game
              (\<lambda>rank s. s\<lparr>cs_rush_defense_rank := Some rank\<rparr>) ?p"
  have e: "ranked_season (cumulative_stats db) s = ?r"
    by (simp add: ranked_season_def season_profiles_def Let_def)
  have lp: "length ?p = length ?ss" by (simp add: assign_ranks_nth(1))
  show "length (ranked_season (cumulative_stats db) s) = length ?ss"
    by (simp add: e assign_ranks_nth(1))
  have "map cs_pass_defense_rank ?r = map cs_pass_defense_rank ?p"
    by (rule assign_ranks_frame) simp
  moreover have "mset (map cs_pass_defense_rank ?p)
                   = mset (map (\<lambda>n. Some (int n)) [1..<Suc (length ?ss)])"
    by (rule assign_ranks_perm) simp
  ultimately show "mset (map cs_pass_defense_rank (ranked_season (cumulative_stats db) s))
           = mset (map (\<lambda>n. Some (int n)) [1..<Suc (length ?ss)])"
    by (simp only: e)
  have "mset (map cs_rush_defense_rank ?r)
          = mset (map (\<lambda>n. Some (int n)) [1..<Suc (length ?p)])"
    by (rule assign_ranks_perm) simp
  then show "mset (map cs_rush_defense_rank (ranked_season (cumulative_stats db) s))
           = mset (map (\<lambda>n. Some (int n)) [1..<Suc (length ?ss)])"
    by (simp only: e lp)
  have "map cs_pass_yards_allowed_per_game ?r = map cs_pass_yards_allowed_per_game ?p"
    by (rule assign_ranks_frame) simp
  also have "\<dots> = map cs_pass_yards_allowed_per_game ?ss"
    by (rule assign_ranks_frame) simp
  finally show "map cs_pass_yards_allowed_per_game (ranked_season (cumulative_stats db) s)
           = map cs_pass_yards_allowed_per_game ?ss"
    by (simp only: e)
  have "map cs_rush_yards_allowed_per_game ?r = map cs_rush_yards_allowed_per_game ?p"
    by (rule assign_ranks_frame) simp
  also have "\<dots> = map cs_rush_yards_allowed_per_game ?ss"
    by (rule assign_ranks_frame) simp
  finally show "map cs_rush_yards_allowed_per_game (ranked_season (cumulative_stats db) s)
           = map cs_rush_yards_allowed_per_game ?ss"
    by (simp only: e)
qed

lemma ranked_season_order:
  assumes a: "a < length (season_profiles db s)" and b: "b < length (season_profiles db s)"
  shows "cs_pass_yards_allowed_per_game (ranked_season (cumulative_stats db) s ! a)
           < cs_pass_yards_allowed_per_game (ranked_season (cumulative_stats db) s ! b)
         \<Longrightarrow> the (cs_pass_defense_rank (ranked_season (cumulative_stats db) s ! a))
             < the (cs_pass_defense_rank (ranked_season (cumulative_stats db) s ! b))"
    and "cs_rush_yards_allowed_per_game (ranked_season (cumulative_stats db) s ! a)
           < cs_rush_yards_allowed_per_game (ranked_season (cumulative_stats db) s ! b)
         \<Longrightarrow> the (cs_rush_defense_rank (ranked_season (cumulative_stats db) s ! a))
             < the (cs_rush_defense_rank (ranked_season (cumulative_stats db) s ! b))"
proof -
  let ?ss = "season_profiles db s"
  let ?p = "assign_ranks cs_pass_yards_allowed_per_game
              (\<lambda>rank s. s\<lparr>cs_pass_defense_rank := Some rank\<rparr>) ?ss"
  let ?r = "assign_ranks cs_rush_yards_allowed_per_game
              (\<lambda>rank s. s\<lparr>cs_rush_defense_rank := Some rank\<rparr>) ?p"
  have e: "ranked_season (cumulative_stats db) s = ?r"
    by (simp add: ranked_season_def season_profiles_def Let_def)
  have lp: "length ?p = length ?ss" by (simp add: assign_ranks_nth(1))
  have lr: "length ?r = length ?ss" by (simp add: assign_ranks_nth(1))
  have nth_map_eq: "\<And>(h :: cumulative_stat \<Rightarrow> 'b) xs ys i.
      map h xs = map h ys \<Longrightarrow> i < length xs \<Longrightarrow> h (xs ! i) = h (ys ! i)"
    by (metis length_map nth_map)
  have f1: "map cs_pass_defense_rank ?r = map cs_pass_defense_rank ?p"
    by (rule assign_ranks_frame) simp
  have f2: "map cs_pass_yards_allowed_per_game ?r = map cs_pass_yards_allowed_per_game ?p"
    by (rule assign_ranks_frame) simp
  have f3: "map cs_pass_yards_allowed_per_game ?p = map cs_pass_yards_allowed_per_game ?ss"
    by (rule assign_ranks_frame) simp
  {
    assume lt: "cs_pass_yards_allowed_per_game (ranked_season (cumulative_stats db) s ! a)
           < cs_pass_yards_allowed_per_game (ranked_season (cumulative_stats db) s ! b)"
    have ya: "cs_pass_yards_allowed_per_game (?r ! a) = cs_pass_yards_allowed_per_game (?ss ! a)"
      using nth_map_eq [OF f2, of a] nth_map_eq [OF f3, of a] a lr lp by simp
    have yb: "cs_pass_yards_allowed_per_game (?r ! b) = cs_pass_yards_allowed_per_game (?ss ! b)"
      using nth_map_eq [OF f2, of b] nth_map_eq [OF f3, of b] b lr lp by simp
    from lt have lt': "cs_pass_yards_allowed_per_game (?ss ! a)
                       < cs_pass_yards_allowed_per_game (?ss ! b)"
      by (simp only: e ya yb)
    have "the (cs_pass_defense_rank (?p ! a)) < the (cs_pass_defense_rank (?p ! b))"
      by (rule assign_ranks_order [OF _ a b lt']) simp
    moreover have "cs_pass_defense_rank (?r ! a) = cs_pass_defense_rank (?p ! a)"
      using nth_map_eq [OF f1, of a] a lr by simp
    moreover have "cs_pass_defense_rank (?r ! b) = cs_pass_defense_rank (?p ! b)"
      using nth_map_eq [OF f1, of b] b lr by simp
    ultimately show "the (cs_pass_defense_rank (ranked_season (cumulative_stats db) s ! a))
             < the (cs_pass_defense_rank (ranked_season (cumulative_stats db) s ! b))"
      by (simp only: e)
  }
  {
    assume lt: "cs_rush_yards_allowed_per_game (ranked_season (cumulative_stats db) s ! a)
           < cs_rush_yards_allowed_per_game (ranked_season (cumulative_stats db) s ! b)"
    have g: "map cs_rush_yards_allowed_per_game ?r = map cs_rush_yards_allowed_per_game ?p"
      by (rule assign_ranks_frame) simp
    have ya: "cs_rush_yards_allowed_per_game (?r ! a) = cs_rush_yards_allowed_per_game (?p ! a)"
      using nth_map_eq [OF g, of a] a lr by simp
    have yb: "cs_rush_yards_allowed_per_game (?r ! b) = cs_rush_yards_allowed_per_game (?p ! b)"
      using nth_map_eq [OF g, of b] b lr by simp
    from lt have lt': "cs_rush_yards_allowed_per_game (?p ! a)
                       < cs_rush_yards_allowed_per_game (?p ! b)"
      by (simp only: e ya yb)
    from a b lp have a': "a < length ?p" and b': "b < length ?p" by simp_all
    have "the (cs_rush_defense_rank (?r ! a)) < the (cs_rush_defense_rank (?r ! b))"
      by (rule assign_ranks_order [OF _ a' b' lt']) simp
    then show "the (cs_rush_defense_rank (ranked_season (cumulative_stats db) s ! a))
             < the (cs_rush_defense_rank (ranked_season (cumulative_stats db) s ! b))"
      by (simp only: e)
  }
qed

text \<open>
  C8, as the code has it. For every season the pass-defense and rush-defense ranks that
  \<open>view_team_defense\<close> computes over the cumulative profiles of that season each form a
  permutation of 1..N, N the number of those profiles, and follow the order of the yards
  allowed. The ranks that \<open>add_team_defense\<close> stores are the submitted ones, 16 where the
  form carries none.
\<close>

theorem view_ranks_permutation:
  "(\<exists>objs. season_view db s = Inr objs
      \<and> length objs = length (season_profiles db s)
      \<and> mset (map so_pass_defense_rank objs) = mset (map int [1..<Suc (length objs)])
      \<and> mset (map so_rush_defense_rank objs) = mset (map int [1..<Suc (length objs)])
      \<and> (\<forall>a<length objs. \<forall>b<length objs.
            so_pass_yards_allowed_per_game (objs ! a) < so_pass_yards_allowed_per_game (objs ! b)
            \<longrightarrow> so_pass_defense_rank (objs ! a) < so_pass_defense_rank (objs ! b))
      \<and> (\<forall>a<length objs. \<forall>b<length objs.
            so_rush_yards_allowed_per_game (objs ! a) < so_rush_yards_allowed_per_game (objs ! b)
            \<longrightarrow> so_rush_defense_rank (objs ! a) < so_rush_defense_rank (objs ! b)))
   \<and> (add_team_defense db form = Inr db' \<longrightarrow>
        (\<exists>row. team_defense_table db' = team_defense_table db @ [row]
           \<and> pass_defense_rank row = form_get (form_pass_defense_rank form) 16
           \<and> rush_defense_rank row = form_get (form_rush_defense_rank form) 16))"
proof (rule conjI)
  let ?rk = "ranked_season (cumulative_stats db) s"
  let ?objs = "map to_object ?rk"
  note P = ranked_season_props [of db s]
  have n: "length ?rk = length (season_profiles db s)" by (rule P(1))
  have mp: "mset (map cs_pass_defense_rank ?rk)
              = mset (map (\<lambda>n. Some (int n)) [1..<Suc (length ?rk)])"
    using P(2) by (simp only: n)
  have mr: "mset (map cs_rush_defense_rank ?rk)
              = mset (map (\<lambda>n. Some (int n)) [1..<Suc (length ?rk)])"
    using P(3) by (simp only: n)
  have all: "\<forall>d\<in>set ?rk. cs_pass_defense_rank d \<noteq> None \<and> cs_rush_defense_rank d \<noteq> None"
    using mset_ranks_the(2) [OF mp] mset_ranks_the(2) [OF mr] by blast
  have v: "season_view db s = Inr ?objs"
    by (simp add: season_view_def stat_objects_all_ranked [OF all])
  have l: "length ?objs = length (season_profiles db s)" by (simp add: n)
  have p1: "mset (map so_pass_defense_rank ?objs) = mset (map int [1..<Suc (length ?objs)])"
    using mset_ranks_the(1) [OF mp] by (simp add: to_object_def comp_def del: upt_Suc)
  have p2: "mset (map so_rush_defense_rank ?objs) = mset (map int [1..<Suc (length ?objs)])"
    using mset_ranks_the(1) [OF mr] by (simp add: to_object_def comp_def del: upt_Suc)
  have o1: "\<forall>a<length ?objs. \<forall>b<length ?objs.
            so_pass_yards_allowed_per_game (?objs ! a) < so_pass_yards_allowed_per_game (?objs ! b)
            \<longrightarrow> so_pass_defense_rank (?objs ! a) < so_pass_defense_rank (?objs ! b)"
    using ranked_season_order(1) [of _ db s] by (simp add: n to_object_def)
  have o2: "\<forall>a<length ?objs. \<forall>b<length ?objs.
            so_rush_yards_allowed_per_game (?objs ! a) < so_rush_yards_allowed_per_game (?objs ! b)
            \<longrightarrow> so_rush_defense_rank (?objs ! a) < so_rush_defense_rank (?objs ! b)"
    using ranked_season_order(2) [of _ db s] by (simp add: n to_object_def)
  from v l p1 p2 o1 o2
  show "\<exists>objs. season_view db s = Inr objs
      \<and> length objs = length (season_profiles db s)
      \<and> mset (map so_pass_defense_rank objs) = mset (map int [1..<Suc (length objs)])
      \<and> mset (map so_rush_defense_rank objs) = mset (map int [1..<Suc (length objs)])
      \<and> (\<forall>a<length objs. \<forall>b<length objs.
            so_pass_yards_allowed_per_game (objs ! a) < so_pass_yards_allowed_per_game (objs ! b)
            \<longrightarrow> so_pass_defense_rank (objs ! a) < so_pass_defense_rank (objs ! b))
      \<and> (\<forall>a<length objs. \<forall>b<length objs.
            so_rush_yards_allowed_per_game (objs ! a) < so_rush_yards_allowed_per_game (objs ! b)
            \<longrightarrow> so_rush_defense_rank (objs ! a) < so_rush_defense_rank (objs ! b))"
    by blast
next
  show "add_team_defense db form = Inr db' \<longrightarrow>
        (\<exists>row. team_defense_table db' = team_defense_table db @ [row]
           \<and> pass_defense_rank row = form_get (form_pass_defense_rank form) 16
           \<and> rush_defense_rank row = form_get (form_rush_defense_rank form) 16)"
    by (auto simp: add_team_defense_def Let_def split: if_splits)
qed

lemma defense_db_view:
  "map_sum id (map (\<lambda>obj. (so_team_abbr obj, so_pass_defense_rank obj, so_rush_defense_rank obj)))
     (season_view defense_db 2024)
   = Inr [(''KC'', 2, 2), (''BUF'', 1, 3), (''NYJ'', 3, 1)]"
  by code_simp

lemma stored_ranks_sample:
  "map_sum id (\<lambda>db. map pass_defense_rank (filter (\<lambda>d. season d = 2024) (team_defense_table db)))
     (add_all empty_db [blank_form ''KC'' 250 100, blank_form ''BUF'' 200 120]) = Inr [16, 16]"
  by code_simp

text \<open>
  The sample table in 2024: ranks 2, 1, 3 by passing yards and 2, 3, 1 by rushing yards;
  a form without ranks is stored with rank 16.
\<close>

theorem view_ranks_permutation_witness:
  "(\<exists>objs. season_view defense_db 2024 = Inr objs
      \<and> map so_pass_defense_rank objs = [2, 1, 3]
      \<and> map so_rush_defense_rank objs = [2, 3, 1]
      \<and> mset (map so_pass_defense_rank objs) = mset (map int [1..<Suc (length objs)])
      \<and> mset (map so_rush_defense_rank objs) = mset (map int [1..<Suc (length objs)]))
   \<and> (\<exists>db'. add_team_defense empty_db (blank_form ''KC'' 250 100) = Inr db'
          \<and> map pass_defense_rank (team_defense_table db') = [16])"
proof (rule conjI)
  from view_ranks_permutation [of defense_db 2024]
  obtain objs where v: "season_view defense_db 2024 = Inr objs"
    and mp: "mset (map so_pass_defense_rank objs) = mset (map int [1..<Suc (length objs)])"
    and mr: "mset (map so_rush_defense_rank objs) = mset (map int [1..<Suc (length objs)])"
    by blast
  let ?t = "\<lambda>obj. (so_team_abbr obj, so_pass_defense_rank obj, so_rush_defense_rank obj)"
  from defense_db_view v
  have t: "map ?t objs = [(''KC'', 2, 2), (''BUF'', 1, 3), (''NYJ'', 3, 1)]" by simp
  have "map so_pass_defense_rank objs = map (\<lambda>x. fst (snd x)) (map ?t objs)" by simp
  then have p: "map so_pass_defense_rank objs = [2, 1, 3]" by (simp only: t) simp
  have "map so_rush_defense_rank objs = map (\<lambda>x. snd (snd x)) (map ?t objs)" by simp
  then have r: "map so_rush_defense_rank objs = [2, 3, 1]" by (simp only: t) simp
  show "\<exists>objs. season_view defense_db 2024 = Inr objs
      \<and> map so_pass_defense_rank objs = [2, 1, 3]
      \<and> map so_rush_defense_rank objs = [2, 3, 1]
      \<and> mset (map so_pass_defense_rank objs) = mset (map int [1..<Suc (length objs)])
      \<and> mset (map so_rush_defense_rank objs) = mset (map int [1..<Suc (length objs)])"
    by (rule exI [of _ objs]) (intro conjI v p r mp mr)
next
  let ?form = "blank_form ''KC'' 250 100"
  have "\<exists>db'. add_team_defense empty_db ?form = Inr db'"
    by (simp add: add_team_defense_def empty_db_def Let_def)
  then obtain db' where a: "add_team_defense empty_db ?form = Inr db'" by blast
  with view_ranks_permutation [of empty_db 0 ?form db']
  obtain row where "team_defense_table db' = team_defense_table empty_db @ [row]"
    and "pass_defense_rank row = form_get (form_pass_defense_rank ?form) 16"
    by blast
  then have m: "map pass_defense_rank (team_defense_table db') = [16]"
    by (simp add: empty_db_def blank_form_def form_get_def)
  show "\<exists>db'. add_team_defense empty_db ?form = Inr db'
          \<and> map pass_defense_rank (team_defense_table db') = [16]"
    by (rule exI [of _ db']) (intro conjI a m)
qed

text \<open>
  C8 as stated fails for the stored ranks: two profiles added for 2024 without a rank are
  both stored with pass-defense rank 16, which is no permutation of 1, 2.
\<close>

theorem stored_ranks_counterexample:
  "map_sum id (\<lambda>db. map pass_defense_rank (filter (\<lambda>d. season d = 2024) (team_defense_table db)))
     (add_all empty_db [blank_form ''KC'' 250 100, blank_form ''BUF'' 200 120]) = Inr [16, 16]
   \<and> mset [16, 16 :: int] \<noteq> mset [1, 2]"
proof -
  have "mset [16, 16 :: int] \<noteq> mset [1, 2]"
  proof
    assume "mset [16, 16 :: int] = mset [1, 2]"
    then have "set [16, 16 :: int] = set [1, 2]" by (rule mset_eq_setD)
    then show False by simp
  qed
  with stored_ranks_sample show ?thesis by (intro conjI)
qed

section \<open>Properties of the matchup projection on machine floats\<close>

text \<open>
  The fields of the returned dictionary, read off the function one by one.
\<close>

lemma recent_event_loop_b64_events:
  "snd (recent_event_loop_b64 g es (i, r)) = r @ filter (in_event_window g) es"
  by (induction es arbitrary: i r) (simp_all add: in_event_window_def Let_def)

lemma prediction_b64_no_stats:
  "calculate_matchup_prediction_b64 db p g evs [] = initial_prediction"
  by (simp add: calculate_matchup_prediction_b64_def)

lemma base_projection_b64_eq:
  "st \<noteq> [] \<Longrightarrow> base_projection (calculate_matchup_prediction_b64 db p g evs st) =
     (if pass_catcher p then average_b64 receiving_yards st else average_b64 rushing_yards st)"
  by (simp add: calculate_matchup_prediction_b64_def Let_def split_beta)

lemma event_adjustment_b64_eq:
  "st \<noteq> [] \<Longrightarrow> event_adjustment (calculate_matchup_prediction_b64 db p g evs st) =
     (if filter (in_event_window g) evs \<noteq> []
      then b64 (base_projection (calculate_matchup_prediction_b64 db p g evs st)
                 * fst (recent_event_loop_b64 g evs (0, [])))
      else 0)"
  by (simp add: calculate_matchup_prediction_b64_def Let_def split_beta
        recent_event_loop_b64_events)

lemma opponent_adjustment_b64_eq:
  "st \<noteq> [] \<Longrightarrow> opponent_adjustment (calculate_matchup_prediction_b64 db p g evs st) =
     (case query_defense db g of None \<Rightarrow> 0
      | Some d \<Rightarrow>
          rank_adjustment_b64 (base_projection (calculate_matchup_prediction_b64 db p g evs st))
            (if pass_catcher p then pass_defense_rank d else rush_defense_rank d))"
  by (simp add: calculate_matchup_prediction_b64_def Let_def split_beta split: option.splits)

lemma final_projection_b64_eq:
  "st \<noteq> [] \<Longrightarrow> final_projection (calculate_matchup_prediction_b64 db p g evs st) =
     round_b64
       (b64 (b64 (base_projection (calculate_matchup_prediction_b64 db p g evs st)
                  + event_adjustment (calculate_matchup_prediction_b64 db p g evs st))
             + opponent_adjustment (calculate_matchup_prediction_b64 db p g evs st))) 1"
  by (simp add: calculate_matchup_prediction_b64_def Let_def split_beta split: option.splits)

lemma confidence_b64_eq:
  "st \<noteq> [] \<Longrightarrow> confidence (calculate_matchup_prediction_b64 db p g evs st) =
     (if cross_season db p g then cross_season_scale (data_confidence db p g evs st)
      else data_confidence db p g evs st)"
  by (simp add: calculate_matchup_prediction_b64_def Let_def split_beta
        recent_event_loop_b64_events cross_season_def cross_season_scale_def data_confidence_def
        split: list.splits)

lemma recommendation_b64_eq:
  "st \<noteq> [] \<Longrightarrow> recommendation (calculate_matchup_prediction_b64 db p g evs st) =
     (case relevant_prop_line p g of None \<Rightarrow> ''HOLD''
      | Some line \<Rightarrow> if line = 0 then ''HOLD''
          else spec_recommendation
                 (b64 (final_projection (calculate_matchup_prediction_b64 db p g evs st) - line))
                 (data_confidence db p g evs st))"
  by (simp add: calculate_matchup_prediction_b64_def Let_def split_beta
        recent_event_loop_b64_events relevant_prop_line_def data_confidence_def
        spec_recommendation_def truthy_def split: option.splits)

lemma cross_season_scale_values:
  "cross_season_scale 0 = 0" "cross_season_scale 20 = 17" "cross_season_scale 25 = 21"
  "cross_season_scale 35 = 29" "cross_season_scale 40 = 34" "cross_season_scale 45 = 38"
  "cross_season_scale 55 = 46" "cross_season_scale 60 = 51" "cross_season_scale 65 = 55"
  "cross_season_scale 75 = 63" "cross_season_scale 80 = 68" "cross_season_scale 100 = 85"
  by code_simp+

text \<open>
  The numbers of the specification's example: a base of 60, one positive event in the
  window and a pass-defense rank of 5.
\<close>

lemma sample_projection_values:
  assumes ne: "st \<noteq> []" and avg: "average_b64 receiving_yards st = 60"
    and pc: "pass_catcher p"
    and pos: "event_type e = ''positive''" and win: "in_event_window g e"
    and qd: "query_defense db g = Some d" and rk: "pass_defense_rank d = 5"
  shows "base_projection (calculate_matchup_prediction_b64 db p g [e] st) = 60"
    and "event_adjustment (calculate_matchup_prediction_b64 db p g [e] st)
           = 2026619832316723 / 281474976710656"
    and "opponent_adjustment (calculate_matchup_prediction_b64 db p g [e] st) = b64 (- 13.2)"
    and "final_projection (calculate_matchup_prediction_b64 db p g [e] st) = 54"
proof -
  let ?P = "calculate_matchup_prediction_b64 db p g [e] st"
  show base: "base_projection ?P = 60"
    using base_projection_b64_eq [OF ne, of db p g "[e]"] pc avg by simp
  have w: "filter (in_event_window g) [e] = [e]" using win by simp
  have imp: "fst (recent_event_loop_b64 g [e] (0, [])) = b64 (0 + b64 0.12)"
    using pos win by (simp add: in_event_window_def)
  have ev0: "event_adjustment ?P
               = b64 (base_projection ?P * fst (recent_event_loop_b64 g [e] (0, [])))"
    using event_adjustment_b64_eq [OF ne, of db p g "[e]"] w by simp
  have ev1: "event_adjustment ?P = b64 (60 * b64 (0 + b64 0.12))"
    by (simp only: ev0 base imp)
  have evv: "b64 (60 * b64 (0 + b64 0.12)) = 2026619832316723 / 281474976710656"
    by code_simp
  show ev: "event_adjustment ?P = 2026619832316723 / 281474976710656"
    by (simp only: ev1 evv)
  have opp0: "opponent_adjustment ?P = rank_adjustment_b64 (base_projection ?P) 5"
    using opponent_adjustment_b64_eq [OF ne, of db p g "[e]"] pc qd rk by simp
  have ra: "rank_adjustment_b64 60 5 = b64 (- 13.2)" by code_simp
  show opp: "opponent_adjustment ?P = b64 (- 13.2)" by (simp only: opp0 base ra)
  have fv: "round_b64 (b64 (b64 (60 + 2026619832316723 / 281474976710656) + b64 (- 13.2))) 1 = 54"
    by code_simp
  show "final_projection ?P = 54"
    by (simp only: final_projection_b64_eq [OF ne] base ev opp fv)
qed

lemma ex_sample_facts:
  "ex_stats \<noteq> []" "average_b64 receiving_yards ex_stats = 60" "pass_catcher ex_player"
  "event_type ex_event = ''positive''" "in_event_window ex_game ex_event"
  "query_defense ex_db ex_game = Some (ex_defense 5)" "pass_defense_rank (ex_defense 5) = 5"
  "\<not> cross_season ex_db ex_player ex_game"
  "data_confidence ex_db ex_player ex_game [ex_event] ex_stats = 80"
  by code_simp+

lemma cross_sample_facts:
  "cross_stats \<noteq> []" "average_b64 receiving_yards cross_stats = 60" "pass_catcher ex_player"
  "event_type cross_event = ''positive''" "in_event_window cross_game cross_event"
  "query_defense cross_db cross_game = Some ((ex_defense 5)\<lparr>season := 2025, week := 2\<rparr>)"
  "pass_defense_rank ((ex_defense 5)\<lparr>season := 2025, week := 2\<rparr>) = 5"
  "cross_season cross_db ex_player cross_game"
  "data_confidence cross_db ex_player cross_game [cross_event] cross_stats = 60"
  "relevant_prop_line ex_player cross_game = Some (91 / 2)"
  by code_simp+

text \<open>
  C1. The example of the specification, on machine floats. For a pass-catching subject
  with 10 performance records whose receiving yards sum to 600, one positive life event 3
  days before the matchup, a stored profile of pass-defense rank 5, no head-to-head row
  and no prop line, the function returns a base projection of 60, an event adjustment of
  \<open>60.0 * 0.12\<close>, which is the float 7.199999999999999, one unit in the last place below the
  float \<open>7.2\<close>, an opponent adjustment equal to the float \<open>-13.2\<close>, a final projection of
  54.0 and the recommendation \<open>HOLD\<close>. The confidence is 25 + 35 + 20 = 80, the last
  summand for having at least 5 records, and 68 when the cross-season scaling applies.
\<close>

theorem example_projection_b64:
  assumes "length st = 10" and "sum_list (map receiving_yards st) = 600"
    and "pass_catcher p"
    and "event_type e = ''positive''" and "days_between (ug_game_date g) (event_date e) = 3"
    and "query_defense db g = Some d" and "pass_defense_rank d = 5"
    and "query_history db p g = []"
    and "relevant_prop_line p g = None"
  shows "base_projection (calculate_matchup_prediction_b64 db p g [e] st) = 60
       \<and> event_adjustment (calculate_matchup_prediction_b64 db p g [e] st)
           = 2026619832316723 / 281474976710656
       \<and> b64 7.2 - event_adjustment (calculate_matchup_prediction_b64 db p g [e] st) = 1 / 2 ^ 50
       \<and> opponent_adjustment (calculate_matchup_prediction_b64 db p g [e] st) = b64 (- 13.2)
       \<and> final_projection (calculate_matchup_prediction_b64 db p g [e] st) = 54
       \<and> recommendation (calculate_matchup_prediction_b64 db p g [e] st) = ''HOLD''
       \<and> confidence (calculate_matchup_prediction_b64 db p g [e] st)
           = (if cross_season db p g then 68 else 80)"
proof -
  let ?P = "calculate_matchup_prediction_b64 db p g [e] st"
  have ne: "st \<noteq> []" using assms(1) by auto
  have td: "true_div 600 10 = 60" by code_simp
  have avg: "average_b64 receiving_yards st = 60"
    using assms(1,2) td by (simp add: average_b64_def)
  have win: "in_event_window g e" using assms(5) by (simp add: in_event_window_def)
  note V = sample_projection_values [OF ne avg assms(3) assms(4) win assms(6) assms(7)]
  have ulp: "b64 7.2 - 2026619832316723 / 281474976710656 = 1 / 2 ^ 50" by code_simp
  have u: "b64 7.2 - event_adjustment ?P = 1 / 2 ^ 50" by (simp only: V(2) ulp)
  have rec: "recommendation ?P = ''HOLD''"
    using recommendation_b64_eq [OF ne, of db p g "[e]"] assms(9) by simp
  have dc: "data_confidence db p g [e] st = 80"
    using assms(1,6,8) win by (simp add: data_confidence_def confidence_factors_def)
  have conf: "confidence ?P = (if cross_season db p g then 68 else 80)"
    using confidence_b64_eq [OF ne, of db p g "[e]"] dc
    by (simp add: cross_season_scale_values)
  from V(1) V(2) u V(3) V(4) rec conf show ?thesis by (intro conjI)
qed

text \<open>
  The sample data meet the hypotheses, and the cross-season scaling does not apply.
\<close>

theorem example_projection_b64_witness:
  "base_projection (calculate_matchup_prediction_b64 ex_db ex_player ex_game [ex_event] ex_stats)
     = 60
   \<and> event_adjustment (calculate_matchup_prediction_b64 ex_db ex_player ex_game [ex_event] ex_stats)
       = 2026619832316723 / 281474976710656
   \<and> final_projection (calculate_matchup_prediction_b64 ex_db ex_player ex_game [ex_event] ex_stats)
       = 54
   \<and> recommendation (calculate_matchup_prediction_b64 ex_db ex_player ex_game [ex_event] ex_stats)
       = ''HOLD''
   \<and> confidence (calculate_matchup_prediction_b64 ex_db ex_player ex_game [ex_event] ex_stats)
       = 80"
proof -
  have h1: "length ex_stats = 10" by code_simp
  have h2: "sum_list (map receiving_yards ex_stats) = 600" by code_simp
  have h3: "pass_catcher ex_player" by code_simp
  have h4: "event_type ex_event = ''positive''" by code_simp
  have h5: "days_between (ug_game_date ex_game) (event_date ex_event) = 3" by code_simp
  have h6: "query_defense ex_db ex_game = Some (ex_defense 5)" by code_simp
  have h7: "pass_defense_rank (ex_defense 5) = 5" by code_simp
  have h8: "query_history ex_db ex_player ex_game = []" by code_simp
  have h9: "relevant_prop_line ex_player ex_game = None" by code_simp
  have c: "\<not> cross_season ex_db ex_player ex_game" by code_simp
  from example_projection_b64 [OF h1 h2 h3 h4 h5 h6 h7 h8 h9] c show ?thesis by simp
qed

text \<open>
  On the sample data the confidence is 80, not 60, and the event adjustment is not the
  float \<open>7.2\<close>.
\<close>

theorem example_values_counterexample:
  "confidence (calculate_matchup_prediction_b64 ex_db ex_player ex_game [ex_event] ex_stats) = 80
   \<and> confidence (calculate_matchup_prediction_b64 ex_db ex_player ex_game [ex_event] ex_stats)
       \<noteq> 60
   \<and> event_adjustment (calculate_matchup_prediction_b64 ex_db ex_player ex_game [ex_event] ex_stats)
       = 2026619832316723 / 281474976710656
   \<and> event_adjustment (calculate_matchup_prediction_b64 ex_db ex_player ex_game [ex_event] ex_stats)
       \<noteq> b64 7.2"
proof -
  let ?P = "calculate_matchup_prediction_b64 ex_db ex_player ex_game [ex_event] ex_stats"
  note F = ex_sample_facts
  have c: "confidence ?P = 80"
    using confidence_b64_eq [OF F(1), of ex_db ex_player ex_game "[ex_event]"] F(8) F(9) by simp
  have e: "event_adjustment ?P = 2026619832316723 / 281474976710656"
    by (rule sample_projection_values(2) [OF F(1) F(2) F(3) F(4) F(5) F(6) F(7)])
  have n: "(2026619832316723 / 281474976710656 :: real) \<noteq> b64 7.2" by code_simp
  have e': "event_adjustment ?P \<noteq> b64 7.2" by (simp only: e n not_False_eq_True)
  from c e e' show ?thesis by simp
qed

text \<open>
  C6. The function reads three stored tables besides its four arguments. Two databases on
  which the three queries agree give the same output for the same arguments. Each query
  matters: with at least one performance record, the arguments and the other two queries
  being equal, the returned confidence differs between a database without and one with a
  defense profile for the matchup, between one without and one with a head-to-head row,
  and between one where the cross-season scaling does not apply and one where it does
  (for a non-zero confidence score).
\<close>

theorem stored_tables_determine_prediction:
  "(query_defense db1 g = query_defense db2 g \<and> query_history db1 p g = query_history db2 p g
      \<and> query_stats db1 p = query_stats db2 p
     \<longrightarrow> calculate_matchup_prediction_b64 db1 p g evs st
         = calculate_matchup_prediction_b64 db2 p g evs st)
   \<and> (st \<noteq> [] \<and> query_defense db1 g = None \<and> query_defense db2 g \<noteq> None
      \<and> query_history db1 p g = query_history db2 p g \<and> query_stats db1 p = query_stats db2 p
     \<longrightarrow> confidence (calculate_matchup_prediction_b64 db1 p g evs st)
         \<noteq> confidence (calculate_matchup_prediction_b64 db2 p g evs st))
   \<and> (st \<noteq> [] \<and> query_history db1 p g = [] \<and> query_history db2 p g \<noteq> []
      \<and> query_defense db1 g = query_defense db2 g \<and> query_stats db1 p = query_stats db2 p
     \<longrightarrow> confidence (calculate_matchup_prediction_b64 db1 p g evs st)
         \<noteq> confidence (calculate_matchup_prediction_b64 db2 p g evs st))
   \<and> (st \<noteq> [] \<and> query_defense db1 g = query_defense db2 g
      \<and> query_history db1 p g = query_history db2 p g
      \<and> \<not> cross_season db1 p g \<and> cross_season db2 p g
      \<and> 0 < data_confidence db1 p g evs st
     \<longrightarrow> confidence (calculate_matchup_prediction_b64 db1 p g evs st)
         \<noteq> confidence (calculate_matchup_prediction_b64 db2 p g evs st))"
proof (intro conjI impI)
  assume "query_defense db1 g = query_defense db2 g \<and> query_history db1 p g = query_history db2 p g
      \<and> query_stats db1 p = query_stats db2 p"
  then show "calculate_matchup_prediction_b64 db1 p g evs st
         = calculate_matchup_prediction_b64 db2 p g evs st"
    by (simp add: calculate_matchup_prediction_b64_def)
next
  assume a: "st \<noteq> [] \<and> query_defense db1 g = None \<and> query_defense db2 g \<noteq> None
      \<and> query_history db1 p g = query_history db2 p g \<and> query_stats db1 p = query_stats db2 p"
  then have cs: "cross_season db1 p g = cross_season db2 p g" by (simp add: cross_season_def)
  from a show "confidence (calculate_matchup_prediction_b64 db1 p g evs st)
         \<noteq> confidence (calculate_matchup_prediction_b64 db2 p g evs st)"
    by (auto simp: confidence_b64_eq cs data_confidence_def confidence_factors_def
          cross_season_scale_values)
next
  assume a: "st \<noteq> [] \<and> query_history db1 p g = [] \<and> query_history db2 p g \<noteq> []
      \<and> query_defense db1 g = query_defense db2 g \<and> query_stats db1 p = query_stats db2 p"
  then have cs: "cross_season db1 p g = cross_season db2 p g" by (simp add: cross_season_def)
  from a show "confidence (calculate_matchup_prediction_b64 db1 p g evs st)
         \<noteq> confidence (calculate_matchup_prediction_b64 db2 p g evs st)"
    by (auto simp: confidence_b64_eq cs data_confidence_def confidence_factors_def
          cross_season_scale_values)
next
  assume a: "st \<noteq> [] \<and> query_defense db1 g = query_defense db2 g
      \<and> query_history db1 p g = query_history db2 p g
      \<and> \<not> cross_season db1 p g \<and> cross_season db2 p g
      \<and> 0 < data_confidence db1 p g evs st"
  then have dc: "data_confidence db2 p g evs st = data_confidence db1 p g evs st"
    by (simp add: data_confidence_def)
  from a show "confidence (calculate_matchup_prediction_b64 db1 p g evs st)
         \<noteq> confidence (calculate_matchup_prediction_b64 db2 p g evs st)"
    by (auto simp: confidence_b64_eq dc data_confidence_def confidence_factors_def
          cross_season_scale_values split: if_splits)
qed

text \<open>
  The first sample database against one with unrelated extra rows, one without the
  defense profile, one with a head-to-head row, and one with a stored game of 2023.
\<close>

theorem stored_tables_determine_prediction_witness:
  "calculate_matchup_prediction_b64 ex_db ex_player ex_game [ex_event] ex_stats
     = calculate_matchup_prediction_b64 ex_db_extra ex_player ex_game [ex_event] ex_stats
   \<and> confidence
       (calculate_matchup_prediction_b64 ex_db_no_defense ex_player ex_game [ex_event] ex_stats)
       \<noteq> confidence (calculate_matchup_prediction_b64 ex_db ex_player ex_game [ex_event] ex_stats)
   \<and> confidence (calculate_matchup_prediction_b64 ex_db ex_player ex_game [ex_event] ex_stats)
       \<noteq> confidence
           (calculate_matchup_prediction_b64 ex_db_history ex_player ex_game [ex_event] ex_stats)
   \<and> confidence (calculate_matchup_prediction_b64 ex_db ex_player ex_game [ex_event] ex_stats)
       \<noteq> confidence
           (calculate_matchup_prediction_b64 ex_db_2023 ex_player ex_game [ex_event] ex_stats)"
proof -
  have ne: "ex_stats \<noteq> []" by code_simp
  have f1: "query_defense ex_db ex_game = query_defense ex_db_extra ex_game" by code_simp
  have f2: "query_history ex_db ex_player ex_game = query_history ex_db_extra ex_player ex_game"
    by code_simp
  have f3: "query_stats ex_db ex_player = query_stats ex_db_extra ex_player" by code_simp
  have d1: "query_defense ex_db_no_defense ex_game = None" by code_simp
  have d2: "query_defense ex_db ex_game \<noteq> None" by code_simp
  have d3: "query_history ex_db_no_defense ex_player ex_game = query_history ex_db ex_player ex_game"
    by code_simp
  have d4: "query_stats ex_db_no_defense ex_player = query_stats ex_db ex_player" by code_simp
  have h1: "query_history ex_db ex_player ex_game = []" by code_simp
  have h2: "query_history ex_db_history ex_player ex_game \<noteq> []" by code_simp
  have h3: "query_defense ex_db ex_game = query_defense ex_db_history ex_game" by code_simp
  have h4: "query_stats ex_db ex_player = query_stats ex_db_history ex_player" by code_simp
  have s1: "query_defense ex_db ex_game = query_defense ex_db_2023 ex_game" by code_simp
  have s2: "query_history ex_db ex_player ex_game = query_history ex_db_2023 ex_player ex_game"
    by code_simp
  have s3: "\<not> cross_season ex_db ex_player ex_game" by code_simp
  have s4: "cross_season ex_db_2023 ex_player ex_game" by code_simp
  have s5: "0 < data_confidence ex_db ex_player ex_game [ex_event] ex_stats" by code_simp
  have a: "calculate_matchup_prediction_b64 ex_db ex_player ex_game [ex_event] ex_stats
     = calculate_matchup_prediction_b64 ex_db_extra ex_player ex_game [ex_event] ex_stats"
    using stored_tables_determine_prediction [where ?db1.0 = ex_db and ?db2.0 = ex_db_extra
        and g = ex_game and p = ex_player and evs = "[ex_event]" and st = ex_stats] f1 f2 f3
    by blast
  have b: "confidence
       (calculate_matchup_prediction_b64 ex_db_no_defense ex_player ex_game [ex_event] ex_stats)
       \<noteq> confidence (calculate_matchup_prediction_b64 ex_db ex_player ex_game [ex_event] ex_stats)"
    using stored_tables_determine_prediction [where ?db1.0 = ex_db_no_defense and ?db2.0 = ex_db
        and g = ex_game and p = ex_player and evs = "[ex_event]" and st = ex_stats] ne d1 d2 d3 d4
    by blast
  have c: "confidence (calculate_matchup_prediction_b64 ex_db ex_player ex_game [ex_event] ex_stats)
       \<noteq> confidence
           (calculate_matchup_prediction_b64 ex_db_history ex_player ex_game [ex_event] ex_stats)"
    using stored_tables_determine_prediction [where ?db1.0 = ex_db and ?db2.0 = ex_db_history
        and g = ex_game and p = ex_player and evs = "[ex_event]" and st = ex_stats] ne h1 h2 h3 h4
    by blast
  have d: "confidence (calculate_matchup_prediction_b64 ex_db ex_player ex_game [ex_event] ex_stats)
       \<noteq> confidence
           (calculate_matchup_prediction_b64 ex_db_2023 ex_player ex_game [ex_event] ex_stats)"
    using stored_tables_determine_prediction [where ?db1.0 = ex_db and ?db2.0 = ex_db_2023
        and g = ex_game and p = ex_player and evs = "[ex_event]" and st = ex_stats] ne s1 s2 s3 s4 s5
    by blast
  from a b c d show ?thesis by (intro conjI)
qed

text \<open>
  The four arguments alone do not fix the output: the same subject, matchup, events and
  records against a stored profile of pass-defense rank 5 and one of rank 20 give the
  final projections 54 and 72.
\<close>

theorem prediction_not_pure_counterexample:
  "final_projection
     (calculate_matchup_prediction_b64 ex_db ex_player ex_game [ex_event] ex_stats) = 54
   \<and> final_projection
       (calculate_matchup_prediction_b64 ex_db_rank20 ex_player ex_game [ex_event] ex_stats) = 72
   \<and> calculate_matchup_prediction_b64 ex_db ex_player ex_game [ex_event] ex_stats
       \<noteq> calculate_matchup_prediction_b64 ex_db_rank20 ex_player ex_game [ex_event] ex_stats"
proof -
  let ?P = "calculate_matchup_prediction_b64 ex_db ex_player ex_game [ex_event] ex_stats"
  let ?Q = "calculate_matchup_prediction_b64 ex_db_rank20 ex_player ex_game [ex_event] ex_stats"
  note F = ex_sample_facts
  have a: "final_projection ?P = 54"
    by (rule sample_projection_values(4) [OF F(1) F(2) F(3) F(4) F(5) F(6) F(7)])
  have base: "base_projection ?Q = 60"
    using base_projection_b64_eq [OF F(1), of ex_db_rank20 ex_player ex_game "[ex_event]"]
      F(2) F(3)
    by simp
  have w: "filter (in_event_window ex_game) [ex_event] = [ex_event]" using F(5) by simp
  have ev0: "event_adjustment ?Q
               = b64 (base_projection ?Q * fst (recent_event_loop_b64 ex_game [ex_event] (0, [])))"
    using event_adjustment_b64_eq [OF F(1), of ex_db_rank20 ex_player ex_game "[ex_event]"] w
    by simp
  have evv: "b64 (60 * fst (recent_event_loop_b64 ex_game [ex_event] (0, [])))
               = 2026619832316723 / 281474976710656"
    by code_simp
  have ev: "event_adjustment ?Q = 2026619832316723 / 281474976710656"
    by (simp only: ev0 base evv)
  have qd: "query_defense ex_db_rank20 ex_game = Some (ex_defense 20)" by code_simp
  have rk: "pass_defense_rank (ex_defense 20) = 20" by code_simp
  have opp0: "opponent_adjustment ?Q = rank_adjustment_b64 (base_projection ?Q) 20"
    using opponent_adjustment_b64_eq [OF F(1), of ex_db_rank20 ex_player ex_game "[ex_event]"]
      F(3) qd rk
    by simp
  have opp: "opponent_adjustment ?Q = rank_adjustment_b64 60 20" by (simp only: opp0 base)
  have fv: "round_b64 (b64 (b64 (60 + 2026619832316723 / 281474976710656)
                              + rank_adjustment_b64 60 20)) 1 = 72"
    by code_simp
  have b: "final_projection ?Q = 72"
    by (simp only: final_projection_b64_eq [OF F(1)] base ev opp fv)
  from a b have "final_projection ?P \<noteq> final_projection ?Q" by simp
  then have "?P \<noteq> ?Q" by auto
  with a b show ?thesis by simp
qed

text \<open>
  C7. The recommendation is decided before the cross-season scaling of the confidence.
  For a pass-catching subject with four stored games of 2024 of 60 receiving yards each,
  a positive event three days before a matchup of the 2025 season, a stored profile of
  pass-defense rank 5 and a prop line of 45.5, the function returns a final projection
  8.5 above the line, the recommendation \<open>STRONG OVER\<close> and a confidence of 51. The rule
  of the specification, applied to the returned confidence, gives \<open>LEAN OVER\<close>.
\<close>

theorem strong_over_below_threshold:
  "recommendation
     (calculate_matchup_prediction_b64 cross_db ex_player cross_game [cross_event] cross_stats)
     = ''STRONG OVER''
   \<and> confidence
       (calculate_matchup_prediction_b64 cross_db ex_player cross_game [cross_event] cross_stats)
       = 51
   \<and> b64 (final_projection
             (calculate_matchup_prediction_b64 cross_db ex_player cross_game [cross_event]
                cross_stats) - 91 / 2) = 17 / 2
   \<and> spec_recommendation (17 / 2)
       (confidence
          (calculate_matchup_prediction_b64 cross_db ex_player cross_game [cross_event]
             cross_stats)) = ''LEAN OVER''"
proof -
  let ?P = "calculate_matchup_prediction_b64 cross_db ex_player cross_game [cross_event] cross_stats"
  note F = cross_sample_facts
  have fin: "final_projection ?P = 54"
    by (rule sample_projection_values(4) [OF F(1) F(2) F(3) F(4) F(5) F(6) F(7)])
  have d: "b64 (54 - 91 / 2) = 17 / 2" by code_simp
  have diff: "b64 (final_projection ?P - 91 / 2) = 17 / 2" by (simp only: fin d)
  have c: "confidence ?P = 51"
    using confidence_b64_eq [OF F(1), of cross_db ex_player cross_game "[cross_event]"] F(8) F(9)
    by (simp add: cross_season_scale_values)
  have s: "spec_recommendation (17 / 2) 60 = ''STRONG OVER''"
    by (simp add: spec_recommendation_def)
  have l: "spec_recommendation (17 / 2) 51 = ''LEAN OVER''"
    by (simp add: spec_recommendation_def)
  have r: "recommendation ?P = ''STRONG OVER''"
    using recommendation_b64_eq [OF F(1), of cross_db ex_player cross_game "[cross_event]"]
      F(10) F(9) diff s
    by simp
  from r c diff l show ?thesis by simp
qed

end
